theory Spec2Isabelle
  imports Complex_Main "HOL-Library.Multiset" "HOL-Library.Sublist"
begin

unbundle bit_operations_syntax

section \<open>Data model of \<open>src/lib/metafs.ts\<close>\<close>

text \<open>
  Amounts are satoshis: JavaScript numbers that hold integers, modelled as \<open>int\<close>.
  The fee rate is a JavaScript number that may be fractional: a double, modelled as the
  rational it holds, with the rounding of each product written out
  (\<open>roundDouble\<close>). Hex strings are \<open>string\<close>.
  Field names follow the TypeScript interfaces; where two interfaces share a field name
  the later one carries a prefix, and \<open>value\<close> of \<open>WalletUTXO\<close> is written
  \<open>w_value\<close>.
\<close>

record UTXO =
  txId :: string
  outputIndex :: nat
  script :: string
  satoshis :: int

record WalletUTXO =
  txid :: string
  outIndex :: nat
  address :: string
  w_value :: int

record UTXOData =
  utxos :: "UTXO list"
  totalAmount :: int

record MergeResult = UTXOData +
  mergeTxId :: "string option"
  mergeTxHex :: "string option"

record UploadResult =
  up_txId :: string
  pinId :: "string option"
  status :: "string option"

record PayTransaction =
  txComposer :: string
  message :: string

record PayParams =
  transactions :: "PayTransaction list"
  feeb :: rat

record PayResult =
  payedTransactions :: "string list"

record SignTransactionParams =
  txHex :: string
  sign_address :: string
  inputIndex :: nat
  scriptHex :: string
  sign_satoshis :: int
  sigtype :: int

record SignResult =
  sig :: string
  publicKey :: string

record DirectUploadResponse =
  code :: int
  resp_message :: "string option"
  data :: UploadResult

text \<open>The browser's \<open>File\<close>: only its name, MIME type and byte length are read.\<close>

record File =
  file_name :: string
  file_type :: string
  file_size :: int

text \<open>
  The result of awaiting a promise of the wallet or of the network: it resolves to a
  value or rejects with a message.
\<close>

datatype 'a reply = Rejected string | Resolved 'a

text \<open>
  An \<open>mvc.Transaction\<close> as the code builds it: \<open>tx.from\<close> appends an input that
  records the spent output, \<open>tx.to\<close> appends an output paying an address, and
  \<open>setScript\<close> attaches the unlocking script of an input.
\<close>

record TxInput =
  prevTxId :: string
  prevOutputIndex :: nat
  prevScript :: string
  prevSatoshis :: int
  unlockingScript :: "string option"

record TxOutput =
  to_address :: string
  to_satoshis :: int

record Transaction =
  version :: int
  inputs :: "TxInput list"
  outputs :: "TxOutput list"

text \<open>
  What the code reads of the transaction the wallet's \<open>pay\<close> returned, after
  \<open>TxComposer.deserialize\<close> and \<open>new mvc.Transaction(hex)\<close>: the raw hex, the
  transaction id and, per output, the locking script (as hex) and the amount.
\<close>

record ParsedOutput =
  po_script :: string
  po_satoshis :: int

record PayedTx =
  rawHex :: string
  payedTxId :: string
  parsedOutputs :: "ParsedOutput list"

text \<open>The multipart form of \<open>directUpload\<close>, one field per \<open>formData.append\<close>.\<close>

record FormData =
  fd_file :: File
  fd_path :: string
  fd_mergeTxHex :: "string option"
  fd_preTxHex :: string
  fd_operation :: string
  fd_contentType :: string
  fd_metaId :: string
  fd_address :: string
  fd_changeAddress :: string
  fd_feeRate :: rat
  fd_totalInputAmount :: int

text \<open>
  The \<open>fetch\<close> response: \<open>ok\<close>, \<open>status\<close> and the outcome of \<open>response.json()\<close>
  (\<open>None\<close> when the body is not JSON and the call throws).
\<close>

record Response =
  ok :: bool
  http_status :: int
  json :: "DirectUploadResponse option"

text \<open>
  Every failure of the source is a JavaScript \<open>Error\<close> with a message. The constructors
  stand for the messages:
  \<^item> \<open>NoFunds\<close>: \<^verbatim>\<open>No available UTXOs in wallet\<close>;
  \<^item> \<open>NoUsableFunds\<close>: \<^verbatim>\<open>No UTXOs larger than 600 satoshis available in wallet\<close>;
  \<^item> \<open>InsufficientBalance need have\<close>:
    \<^verbatim>\<open>Insufficient balance! Need ${need} satoshis, but only have ${have} satoshis\<close>;
  \<^item> \<open>PayUnsupported\<close>: \<^verbatim>\<open>Wallet does not support pay method\<close>;
  \<^item> \<open>NoPayedTransaction\<close>: the failure of deserialising \<open>payedTransactions[0]\<close>
    when the wallet returned no transaction;
  \<^item> \<open>NoOutputs\<close>: the \<open>TypeError\<close> of reading \<open>outputs[0].satoshis\<close> of a
    transaction without outputs;
  \<^item> \<open>SighashSingleRequires n\<close>: \<^verbatim>\<open>SIGHASH_SINGLE requires exactly 1 UTXO, got ${n}\<close>;
  \<^item> \<open>NoSignature\<close>: \<^verbatim>\<open>Failed to get signature\<close>;
  \<^item> \<open>HTTPError s\<close>: \<^verbatim>\<open>HTTP Error: ${s}\<close>;
  \<^item> \<open>ServerMessage m\<close>: \<open>new Error(result.message)\<close>, the server's message
    (empty when the body has none);
  \<^item> \<open>BadJson\<close>: the failure of \<open>response.json()\<close>;
  \<^item> \<open>Thrown m\<close>: the rejection of a wallet or network promise;
  \<^item> \<open>FailedToGetUTXOs e\<close>, \<open>FailedToMergeUTXOs e\<close>, \<open>FailedToBuildSign e\<close>,
    \<open>DirectUploadFailed e\<close>: the \<open>catch\<close> blocks, which prefix the message of \<open>e\<close>
    with \<^verbatim>\<open>Failed to get UTXOs: \<close>, \<^verbatim>\<open>Failed to merge UTXOs: \<close>,
    \<^verbatim>\<open>Failed to build/sign MVC transaction: \<close> and \<^verbatim>\<open>DirectUpload failed: \<close>.
\<close>

datatype error =
    NoFunds
  | NoUsableFunds
  | InsufficientBalance int int
  | PayUnsupported
  | NoPayedTransaction
  | NoOutputs
  | SighashSingleRequires nat
  | NoSignature
  | HTTPError int
  | ServerMessage string
  | BadJson
  | Thrown string
  | FailedToGetUTXOs error
  | FailedToMergeUTXOs error
  | FailedToBuildSign error
  | DirectUploadFailed error

text \<open>
  What the functions read from outside themselves: the stores (\<open>userStore.last\<close>,
  \<open>chainStore.mvcFeeRate()\<close>), the wallet (\<open>window.metaidwallet\<close>), \<open>fetch\<close>, and the
  calls into the \<open>meta-contract\<close> library, which are opaque functions here:
  \<^item> \<open>buildPublicKeyHashOut a\<close> is \<open>mvc.Script.buildPublicKeyHashOut(a).toHex()\<close>;
  \<^item> \<open>toAddress s\<close> is \<open>script.toAddress(network)\<close> of the script with hex \<open>s\<close>,
    rendered by \<open>toString()\<close>; \<open>None\<close> when the call throws or yields nothing;
  \<^item> \<open>composerSerialize\<close> is \<open>new TxComposer(tx).serialize()\<close>;
  \<^item> \<open>composerDeserialize\<close> is \<open>TxComposer.deserialize\<close> followed by
    \<open>getRawHex\<close>, \<open>getTxId\<close> and the parse of the raw hex;
  \<^item> \<open>txToString\<close> is \<open>tx.toString()\<close>;
  \<^item> \<open>sigToDER s\<close> is \<open>Signature.fromTxFormat(Buffer.from(s, 'hex')).toDER()\<close>;
  \<^item> \<open>buildPublicKeyHashIn pk der t\<close> is \<open>mvc.Script.buildPublicKeyHashIn\<close>.
  \<open>pay\<close> is \<open>None\<close> when \<open>typeof window.metaidwallet.pay\<close> is not \<open>'function'\<close>.
  The library functions are total here: an exception inside the library is outside the
  model, except for \<open>toAddress\<close>, whose exception the source catches itself.
\<close>

record Env =
  userAddress :: string
  userMetaid :: string
  mvcFeeRate :: rat
  getUtxos :: "WalletUTXO list option reply"
  pay :: "(PayParams \<Rightarrow> PayResult reply) option"
  signTransaction :: "SignTransactionParams \<Rightarrow> SignResult option reply"
  fetch :: "FormData \<Rightarrow> Response reply"
  buildPublicKeyHashOut :: "string \<Rightarrow> string"
  toAddress :: "string \<Rightarrow> string option"
  composerSerialize :: "Transaction \<Rightarrow> string"
  composerDeserialize :: "string \<Rightarrow> PayedTx"
  txToString :: "Transaction \<Rightarrow> string"
  sigToDER :: "string \<Rightarrow> string"
  buildPublicKeyHashIn :: "string \<Rightarrow> string \<Rightarrow> int \<Rightarrow> string"

section \<open>Fee estimation\<close>

subsection \<open>JavaScript numbers\<close>

text \<open>
  A JavaScript number is an IEEE 754 binary64 value. Every finite double is a rational,
  so the fee rate is a \<open>rat\<close>, and the product \<open>a * b\<close> of two doubles is the exact
  product rounded to the nearest double, ties to the even significand: \<open>roundDouble\<close>.
  A positive rational \<open>x\<close> lies in one binade \<open>2^e \<le> x < 2^(e+1)\<close>; the doubles of
  that binade are the multiples of \<open>2^(e-52)\<close>, and \<open>x\<close> is rounded to the nearest of
  them. Below \<open>2^(-1022)\<close> the doubles are the multiples of \<open>2^(-1074)\<close>: the
  exponent is held at \<open>-1022\<close> there. It is not bounded above: the model is that of
  the code for results below \<open>2^1024\<close>, where no product overflows to \<open>Infinity\<close>.
  \<open>Math.ceil\<close> of a finite double is the ceiling of its value. The literal \<open>1.2\<close>
  is the double nearest to \<open>6/5\<close>, which is \<open>roundDouble (6 / 5)\<close>.
\<close>

function bitLength :: "int \<Rightarrow> nat" where
  "bitLength n = (if n \<le> 0 then 0 else Suc (bitLength (n div 2)))"
  by pat_completeness auto
termination
  by (relation "measure nat") auto

declare bitLength.simps [simp del]

definition binadeExponent :: "rat \<Rightarrow> int" where
  "binadeExponent x =
     (if 1 \<le> x then int (bitLength \<lfloor>x\<rfloor>) - 1
      else - int (bitLength (\<lceil>1 / x\<rceil> - 1)))"

definition roundHalfEven :: "rat \<Rightarrow> int" where
  "roundHalfEven y =
     (let f = \<lfloor>y\<rfloor>; d = y - of_int f
      in if d < 1 / 2 then f else if 1 / 2 < d then f + 1
         else if even f then f else f + 1)"

definition ulpOf :: "rat \<Rightarrow> rat" where
  "ulpOf a = 2 powi (max (binadeExponent a) (- 1022) - 52)"

definition roundDouble :: "rat \<Rightarrow> rat" where
  "roundDouble x =
     (if x = 0 then 0
      else
        let a = \<bar>x\<bar>;
            n = roundHalfEven (a / ulpOf a)
        in sgn x * of_int n * ulpOf a)"

subsection \<open>The estimator\<close>

text \<open>
  \<open>estimateUploadFee\<close>, lines 147 to 184. The sizes are whole numbers, added exactly.
  \<open>chainStore.mvcFeeRate() || 1\<close> replaces a rate of zero by one.
  \<open>estimatedTxSize * feeRate\<close> and \<open>estimatedFee * 1.2\<close> are products of doubles, each
  rounded to a double before \<open>Math.ceil\<close> reads it.
\<close>

definition estimatedTxSize :: "int \<Rightarrow> int" where
  "estimatedTxSize fileSize =
     (let baseSize = 200;
          inputSize = 150;
          outputSize = 34;
          opReturnOverhead = 50;
          path = ''/file'';
          fileHost = '''';
          finalPath = (if fileHost \<noteq> [] then fileHost @ '':'' @ path else path);
          metadataSize = 6 + 10 + int (length finalPath) + 10 + 10 + 50;
          opReturnSize = opReturnOverhead + metadataSize + fileSize
      in baseSize + inputSize + outputSize * 2 + opReturnSize)"

definition estimateUploadFee :: "Env \<Rightarrow> File \<Rightarrow> int" where
  "estimateUploadFee env file =
     (let feeRate = (if mvcFeeRate env = 0 then 1 else mvcFeeRate env);
          estimatedFee = \<lceil>roundDouble (of_int (estimatedTxSize (file_size file)) * feeRate)\<rceil>;
          feeWithMargin = \<lceil>roundDouble (of_int estimatedFee * roundDouble (6 / 5))\<rceil>
      in feeWithMargin)"

text \<open>
  The formula in the specification's words, for comparison with the code:
  \<open>ceil(ceil(estimatedTxSize \<times> rate) \<times> 1.2)\<close> with
  \<open>estimatedTxSize = 200 + 150 + 2 \<times> 34 + 50 + metadataOverhead + fileSize\<close>, where the
  metadata overhead of the code is 91, in exact arithmetic: no rounding other than the
  two ceilings.
\<close>

definition feeFormula :: "rat \<Rightarrow> int \<Rightarrow> int" where
  "feeFormula rate fileSize =
     \<lceil>of_int \<lceil>of_int (200 + 150 + 2 * 34 + 50 + 91 + fileSize) * rate\<rceil> * (6 / 5 :: rat)\<rceil>"

section \<open>UTXO selection\<close>

text \<open>
  \<open>getWalletUTXOs\<close>, lines 186 to 242. \<open>Array.prototype.sort\<close> is stable, and the
  comparator \<open>b.value - a.value\<close> orders by descending value: \<open>sort_key\<close> on the negated
  value is the same stable sort. The loop pushes the output, adds its value and breaks
  as soon as the total reaches \<open>requiredAmount + 1\<close>. The variable \<open>totalAmount\<close> of
  the loop is \<open>amount\<close> here. \<open>selectFrom\<close> is the body of the \<open>try\<close> after the
  wallet has answered, \<open>getWalletUTXOs\<close> adds the wallet call and the \<open>catch\<close>.
\<close>

definition toUTXO :: "Env \<Rightarrow> WalletUTXO \<Rightarrow> UTXO" where
  "toUTXO env utxo =
     \<lparr>txId = txid utxo, outputIndex = outIndex utxo,
      script = buildPublicKeyHashOut env (address utxo), satoshis = w_value utxo\<rparr>"

definition sortDescending :: "WalletUTXO list \<Rightarrow> WalletUTXO list" where
  "sortDescending us = sort_key (\<lambda>u. - w_value u) us"

fun selectLoop :: "Env \<Rightarrow> int \<Rightarrow> WalletUTXO list \<Rightarrow> UTXO list \<Rightarrow> int \<Rightarrow> UTXO list \<times> int" where
  "selectLoop env requiredAmount [] selectedUtxos amount = (selectedUtxos, amount)"
| "selectLoop env requiredAmount (utxo # rest) selectedUtxos amount =
     (let selectedUtxos' = selectedUtxos @ [toUTXO env utxo];
          amount' = amount + w_value utxo
      in if amount' \<ge> requiredAmount + 1 then (selectedUtxos', amount')
         else selectLoop env requiredAmount rest selectedUtxos' amount')"

definition fillerUtxos :: "WalletUTXO list \<Rightarrow> WalletUTXO list" where
  "fillerUtxos us = (let filler = 600 in filter (\<lambda>utxo. w_value utxo > filler) us)"

definition selectFrom :: "Env \<Rightarrow> int \<Rightarrow> WalletUTXO list \<Rightarrow> error + UTXOData" where
  "selectFrom env requiredAmount us =
     (if us = [] then Inl NoFunds
      else if fillerUtxos us = [] then Inl NoUsableFunds
      else
        let sortedUtxos = sortDescending (fillerUtxos us);
            (selectedUtxos, amount) = selectLoop env requiredAmount sortedUtxos [] 0
        in if amount < requiredAmount + 1
           then Inl (InsufficientBalance (requiredAmount + 1) amount)
           else Inr \<lparr>utxos = selectedUtxos, totalAmount = amount\<rparr>)"

definition getWalletUTXOs :: "Env \<Rightarrow> int \<Rightarrow> error + UTXOData" where
  "getWalletUTXOs env requiredAmount =
     (case (case getUtxos env of
              Rejected m \<Rightarrow> Inl (Thrown m)
            | Resolved None \<Rightarrow> Inl NoFunds
            | Resolved (Some us) \<Rightarrow> selectFrom env requiredAmount us) of
        Inl e \<Rightarrow> Inl (FailedToGetUTXOs e)
      | Inr r \<Rightarrow> Inr r)"

section \<open>Consolidation\<close>

text \<open>
  The transaction builder calls: \<open>new mvc.Transaction()\<close> followed by
  \<open>tx.version = 10\<close>, \<open>tx.from\<close>, \<open>tx.to\<close> and \<open>tx.inputs[0].setScript\<close>.
\<close>

definition newTransaction :: "int \<Rightarrow> Transaction" where
  "newTransaction v = \<lparr>version = v, inputs = [], outputs = []\<rparr>"

definition txFrom :: "Transaction \<Rightarrow> UTXO \<Rightarrow> Transaction" where
  "txFrom tx utxo =
     tx\<lparr>inputs := inputs tx @
        [\<lparr>prevTxId = txId utxo, prevOutputIndex = outputIndex utxo,
          prevScript = script utxo, prevSatoshis = satoshis utxo,
          unlockingScript = None\<rparr>]\<rparr>"

definition txTo :: "Transaction \<Rightarrow> string \<Rightarrow> int \<Rightarrow> Transaction" where
  "txTo tx addr amount =
     tx\<lparr>outputs := outputs tx @ [\<lparr>to_address = addr, to_satoshis = amount\<rparr>]\<rparr>"

definition setScript0 :: "Transaction \<Rightarrow> string \<Rightarrow> Transaction" where
  "setScript0 tx s =
     (case inputs tx of
        [] \<Rightarrow> tx
      | i # rest \<Rightarrow> tx\<lparr>inputs := i\<lparr>unlockingScript := Some s\<rparr> # rest\<rparr>)"

text \<open>
  The matching loop of \<open>mergeUTXOs\<close>, lines 297 to 309: the outputs in index order,
  from index \<open>i\<close>. \<open>paysOwn\<close> is the test of the loop body: the script decodes to an
  address (no exception, no empty value) whose string is \<open>userStore.last.address\<close>. An
  output that fails the test is skipped, and the first one that passes stops the loop.
\<close>

definition paysOwn :: "Env \<Rightarrow> ParsedOutput \<Rightarrow> bool" where
  "paysOwn env output =
     (case toAddress env (po_script output) of
        None \<Rightarrow> False
      | Some addr \<Rightarrow> addr = userAddress env)"

fun findOwnOutput :: "Env \<Rightarrow> ParsedOutput list \<Rightarrow> nat \<Rightarrow> (nat \<times> int) option" where
  "findOwnOutput env [] i = None"
| "findOwnOutput env (output # rest) i =
     (if paysOwn env output then Some (i, po_satoshis output)
      else findOwnOutput env rest (Suc i))"

text \<open>
  Lines 294 to 315: the match, or the fallback to output 0. Reading \<open>outputs[0]\<close> of a
  transaction without outputs raises.
\<close>

definition mergedOutput :: "Env \<Rightarrow> ParsedOutput list \<Rightarrow> error + (nat \<times> int)" where
  "mergedOutput env outs =
     (case findOwnOutput env outs 0 of
        Some m \<Rightarrow> Inr m
      | None \<Rightarrow> (case outs of [] \<Rightarrow> Inl NoOutputs | out0 # _ \<Rightarrow> Inr (0, po_satoshis out0)))"

text \<open>
  \<open>mergeUTXOs\<close>, lines 244 to 336: \<open>mergePayParams\<close> is the request of lines 257
  to 277, \<open>mergeResultAt\<close> the result of lines 317 to 330 for a merged output index and
  amount, \<open>mergeResultOf\<close> the reading of the signed transaction, lines 286 to 330.
  The parameter \<open>_utxoData\<close> (here \<open>utxoData_unused\<close>) is never read.
\<close>

definition mergePayParams :: "Env \<Rightarrow> int \<Rightarrow> PayParams" where
  "mergePayParams env estimatedFee =
     (let mergeTx = txTo (newTransaction 10) (userAddress env) estimatedFee;
          txComposerSerialize = composerSerialize env mergeTx;
          feeRate = (if mvcFeeRate env = 0 then 1 else mvcFeeRate env)
      in \<lparr>transactions =
            [\<lparr>txComposer = txComposerSerialize, message = ''Merge UTXOs''\<rparr>],
          feeb = feeRate\<rparr>)"

definition mergeResultAt :: "PayedTx \<Rightarrow> nat \<Rightarrow> int \<Rightarrow> MergeResult" where
  "mergeResultAt payed mergedOutputIndex mergedOutputAmount =
     (let signedMergeTxHex = rawHex payed;
          mergeTxId' = payedTxId payed;
          newUtxo =
            \<lparr>txId = mergeTxId',
             outputIndex = mergedOutputIndex,
             script = po_script (parsedOutputs payed ! mergedOutputIndex),
             satoshis = mergedOutputAmount\<rparr>
      in \<lparr>utxos = [newUtxo],
          totalAmount = satoshis newUtxo,
          mergeTxId = Some mergeTxId',
          mergeTxHex = Some signedMergeTxHex\<rparr>)"

definition mergeResultOf :: "Env \<Rightarrow> PayedTx \<Rightarrow> error + MergeResult" where
  "mergeResultOf env payed =
     (case mergedOutput env (parsedOutputs payed) of
        Inl e \<Rightarrow> Inl e
      | Inr (mergedOutputIndex, mergedOutputAmount) \<Rightarrow>
          Inr (mergeResultAt payed mergedOutputIndex mergedOutputAmount))"

definition mergeUTXOs :: "Env \<Rightarrow> UTXOData \<Rightarrow> int \<Rightarrow> error + MergeResult" where
  "mergeUTXOs env utxoData_unused estimatedFee =
     (case (case pay env of
              None \<Rightarrow> Inl PayUnsupported
            | Some payMethod \<Rightarrow>
                (case payMethod (mergePayParams env estimatedFee) of
                   Rejected m \<Rightarrow> Inl (Thrown m)
                 | Resolved payResult \<Rightarrow>
                     (case payedTransactions payResult of
                        [] \<Rightarrow> Inl NoPayedTransaction
                      | payedTxComposerStr # _ \<Rightarrow>
                          mergeResultOf env (composerDeserialize env payedTxComposerStr)))) of
        Inl e \<Rightarrow> Inl (FailedToMergeUTXOs e)
      | Inr r \<Rightarrow> Inr r)"

section \<open>The base transaction\<close>

text \<open>
  \<open>buildAndSignBaseTx\<close>, lines 338 to 405. The signature type is
  \<open>0x3 | 0x80 | 0x40\<close>. The test \<open>!utxoData.utxos\<close> covers a missing array, which the
  type \<open>UTXO[]\<close> excludes. The wallet's \<open>{signature: {sig, publicKey}}\<close> is the flat
  record \<open>SignResult\<close>. \<open>baseTx\<close> is the transaction of lines 352 to 364,
  \<open>signRequest\<close> the argument of \<open>signTransaction\<close> (lines 367 to 376) and
  \<open>signedBaseTx\<close> the transaction after \<open>setScript\<close> (lines 383 to 394).
\<close>

definition sighashType :: int where
  "sighashType = 0x3 OR 0x80 OR 0x40"

definition baseTx :: "Env \<Rightarrow> UTXO \<Rightarrow> Transaction" where
  "baseTx env utxo = txTo (txFrom (newTransaction 10) utxo) (userAddress env) 1"

definition signRequest :: "Env \<Rightarrow> UTXO \<Rightarrow> SignTransactionParams" where
  "signRequest env utxo =
     \<lparr>txHex = txToString env (baseTx env utxo),
      sign_address = userAddress env,
      inputIndex = 0,
      scriptHex = script utxo,
      sign_satoshis = satoshis utxo,
      sigtype = sighashType\<rparr>"

definition signedBaseTx :: "Env \<Rightarrow> UTXO \<Rightarrow> SignResult \<Rightarrow> Transaction" where
  "signedBaseTx env utxo signResult =
     (let unlocking =
            buildPublicKeyHashIn env (publicKey signResult)
              (sigToDER env (sig signResult)) sighashType
      in setScript0 (baseTx env utxo) unlocking)"

definition buildAndSignBaseTx :: "Env \<Rightarrow> UTXOData \<Rightarrow> error + string" where
  "buildAndSignBaseTx env utxoData =
     (case (if length (utxos utxoData) \<noteq> 1
            then Inl (SighashSingleRequires (length (utxos utxoData)))
            else
              let utxo = hd (utxos utxoData)
              in case signTransaction env (signRequest env utxo) of
                   Rejected m \<Rightarrow> Inl (Thrown m)
                 | Resolved None \<Rightarrow> Inl NoSignature
                 | Resolved (Some signResult) \<Rightarrow>
                     Inr (txToString env (signedBaseTx env utxo signResult))) of
        Inl e \<Rightarrow> Inl (FailedToBuildSign e)
      | Inr r \<Rightarrow> Inr r)"

section \<open>Upload\<close>

text \<open>\<open>String.prototype.includes\<close>: the argument occurs as a contiguous substring.\<close>

fun includes_str :: "string \<Rightarrow> string \<Rightarrow> bool" where
  "includes_str [] sub = (sub = [])"
| "includes_str (c # cs) sub = (prefix sub (c # cs) \<or> includes_str cs sub)"

definition buildContentType :: "File \<Rightarrow> string" where
  "buildContentType file =
     (let contentType =
            (if file_type file \<noteq> [] then file_type file else ''application/octet-stream'')
      in if \<not> includes_str contentType '';binary'' then contentType @ '';binary''
         else contentType)"

text \<open>
  \<open>directUpload\<close>, lines 407 to 479; \<open>uploadForm\<close> is the form of lines 417 to
  445. The form's \<open>feeRate\<close> field is the store's rate as it is: its string is never
  empty, so the \<open>|| '1'\<close> never applies.
\<close>

definition uploadForm :: "Env \<Rightarrow> File \<Rightarrow> string \<Rightarrow> int \<Rightarrow> string \<Rightarrow> FormData" where
  "uploadForm env file preTxHex totalInputAmount mergeTxHex' =
     (let contentType = buildContentType file;
          path = ''/file'';
          fileHost = [];
          finalPath = (if fileHost \<noteq> [] then fileHost @ '':'' @ path else path)
      in \<lparr>fd_file = file,
          fd_path = finalPath,
          fd_mergeTxHex = (if mergeTxHex' \<noteq> [] then Some mergeTxHex' else None),
          fd_preTxHex = preTxHex,
          fd_operation = ''create'',
          fd_contentType = contentType,
          fd_metaId = userMetaid env,
          fd_address = userAddress env,
          fd_changeAddress = userAddress env,
          fd_feeRate = mvcFeeRate env,
          fd_totalInputAmount = totalInputAmount\<rparr>)"

definition directUpload :: "Env \<Rightarrow> File \<Rightarrow> string \<Rightarrow> int \<Rightarrow> string \<Rightarrow> error + UploadResult" where
  "directUpload env file preTxHex totalInputAmount mergeTxHex' =
     (case (case fetch env (uploadForm env file preTxHex totalInputAmount mergeTxHex') of
              Rejected m \<Rightarrow> Inl (Thrown m)
            | Resolved response \<Rightarrow>
                if \<not> ok response then Inl (HTTPError (http_status response))
                else
                  (case json response of
                     None \<Rightarrow> Inl BadJson
                   | Some result \<Rightarrow>
                       if code result \<noteq> 0
                       then Inl (ServerMessage
                              (case resp_message result of None \<Rightarrow> [] | Some m \<Rightarrow> m))
                       else Inr (data result))) of
        Inl e \<Rightarrow> Inl (DirectUploadFailed e)
      | Inr r \<Rightarrow> Inr r)"

text \<open>
  \<open>uploadFileToChainDirect\<close>, lines 90 to 145: the pipeline. Its \<open>catch\<close> rethrows the
  error unchanged.
\<close>

definition finalUtxoOf :: "Env \<Rightarrow> UTXOData \<Rightarrow> int \<Rightarrow> error + (UTXOData \<times> string)" where
  "finalUtxoOf env selected estimatedFee =
     (if length (utxos selected) > 1
      then (case mergeUTXOs env selected estimatedFee of
              Inl e \<Rightarrow> Inl e
            | Inr mergeResult \<Rightarrow>
                Inr (\<lparr>utxos = utxos mergeResult, totalAmount = totalAmount mergeResult\<rparr>,
                     (case mergeTxHex mergeResult of None \<Rightarrow> '''' | Some h \<Rightarrow> h)))
      else Inr (\<lparr>utxos = utxos selected, totalAmount = totalAmount selected\<rparr>, ''''))"

definition uploadFileToChainDirect :: "Env \<Rightarrow> File \<Rightarrow> error + UploadResult" where
  "uploadFileToChainDirect env file =
     (let estimatedFee = estimateUploadFee env file
      in case getWalletUTXOs env estimatedFee of
           Inl e \<Rightarrow> Inl e
         | Inr selected \<Rightarrow>
             (case finalUtxoOf env selected estimatedFee of
                Inl e \<Rightarrow> Inl e
              | Inr (finalUtxo, mergeHex) \<Rightarrow>
                  (case buildAndSignBaseTx env finalUtxo of
                     Inl e \<Rightarrow> Inl e
                   | Inr preTxHex \<Rightarrow>
                       directUpload env file preTxHex (totalAmount finalUtxo) mergeHex)))"

section \<open>The asset pointer\<close>

text \<open>
  \<open>uploadFile\<close> of \<open>MetaTree.vue\<close>, line 392: the pointer returned for an upload
  result, \<^verbatim>\<open>metafile://${result.txId}i0\<close>.
\<close>

definition uploadFilePointer :: "UploadResult \<Rightarrow> string" where
  "uploadFilePointer result = ''metafile://'' @ up_txId result @ ''i0''"

text \<open>
  Modelled from the spec: the general pointer format
  \<^verbatim>\<open>{scheme}://{finalTransactionId}i{outputIndex}\<close> and its decoder are not in the
  sources (only the literal above is). \<open>showNat\<close> renders the index in decimal, as a
  template string does; the decoder strips the scheme prefix and splits the rest at the
  last \<open>i\<close>.
\<close>

definition digitChar :: "nat \<Rightarrow> char" where
  "digitChar d = ''0123456789'' ! d"

function showNat :: "nat \<Rightarrow> string" where
  "showNat n = (if n < 10 then [digitChar n] else showNat (n div 10) @ [digitChar (n mod 10)])"
  by pat_completeness auto
termination
  by (relation "measure id") auto

declare showNat.simps [simp del]

definition assetPointer :: "string \<Rightarrow> string \<Rightarrow> nat \<Rightarrow> string" where
  "assetPointer scheme txId' idx = scheme @ ''://'' @ txId' @ ''i'' @ showNat idx"

definition digitVal :: "char \<Rightarrow> nat option" where
  "digitVal c = map_of (zip ''0123456789'' [0 ..< 10]) c"

fun parseDigits :: "nat \<Rightarrow> string \<Rightarrow> nat option" where
  "parseDigits acc [] = Some acc"
| "parseDigits acc (c # cs) =
     (case digitVal c of None \<Rightarrow> None | Some d \<Rightarrow> parseDigits (10 * acc + d) cs)"

definition parseNat :: "string \<Rightarrow> nat option" where
  "parseNat s = (if s = [] then None else parseDigits 0 s)"

definition splitLast :: "char \<Rightarrow> string \<Rightarrow> (string \<times> string) option" where
  "splitLast c s =
     (case dropWhile (\<lambda>x. x \<noteq> c) (rev s) of
        [] \<Rightarrow> None
      | _ # before \<Rightarrow> Some (rev before, rev (takeWhile (\<lambda>x. x \<noteq> c) (rev s))))"

text \<open>
  Modelled from the spec: the decoder of the asset pointer, which no source file holds.
  It answers \<open>None\<close> for a string that does not start with the scheme, holds no \<open>i\<close>
  or ends in something that is not a decimal number.
\<close>

definition decodeAssetPointer :: "string \<Rightarrow> string \<Rightarrow> (string \<times> nat) option" where
  "decodeAssetPointer scheme p =
     (if prefix (scheme @ ''://'') p
      then (case splitLast (CHR ''i'') (drop (length scheme + 3) p) of
              None \<Rightarrow> None
            | Some (t, d) \<Rightarrow>
                (case parseNat d of None \<Rightarrow> None | Some n \<Rightarrow> Some (t, n)))
      else None)"

section \<open>Scenarios\<close>

text \<open>
  A concrete environment for the scenarios of the specification: fee rate 1, a wallet
  without outputs and without \<open>pay\<close>, a signer that declines, no network. The library
  functions are stand-ins that keep their arguments apart. The scenarios below change
  single fields.
\<close>

definition exampleEnv :: Env where
  "exampleEnv =
     \<lparr>userAddress = ''1Own'',
      userMetaid = ''metaid'',
      mvcFeeRate = 1,
      getUtxos = Resolved (Some []),
      pay = None,
      signTransaction = (\<lambda>_. Resolved None),
      fetch = (\<lambda>_. Rejected ''offline''),
      buildPublicKeyHashOut = (\<lambda>a. ''p2pkh:'' @ a),
      toAddress = (\<lambda>s. if take 6 s = ''p2pkh:'' then Some (drop 6 s) else None),
      composerSerialize = (\<lambda>_. ''composer''),
      composerDeserialize =
        (\<lambda>s. \<lparr>rawHex = s, payedTxId = ''txid:'' @ s, parsedOutputs = []\<rparr>),
      txToString = (\<lambda>tx. concat (map prevTxId (inputs tx))),
      sigToDER = (\<lambda>s. ''der:'' @ s),
      buildPublicKeyHashIn = (\<lambda>pk der t. der @ '' '' @ pk)\<rparr>"

definition walletOutput :: "string \<Rightarrow> int \<Rightarrow> WalletUTXO" where
  "walletOutput t v = \<lparr>txid = t, outIndex = 0, address = ''1Own'', w_value = v\<rparr>"

definition exampleFile :: "int \<Rightarrow> File" where
  "exampleFile n = \<lparr>file_name = ''a.bin'', file_type = [], file_size = n\<rparr>"

text \<open>
  A wallet whose \<open>pay\<close> returns one signed transaction with the given outputs, and
  outputs that pay the user's address, another address, or carry a script without an
  address.
\<close>

definition mergeEnv :: "ParsedOutput list \<Rightarrow> Env" where
  "mergeEnv outs =
     exampleEnv
       \<lparr>pay := Some (\<lambda>_. Resolved \<lparr>payedTransactions = [''signed'']\<rparr>),
        composerDeserialize :=
          (\<lambda>s. \<lparr>rawHex = s, payedTxId = ''merged'', parsedOutputs = outs\<rparr>)\<rparr>"

definition ownOutput :: "int \<Rightarrow> ParsedOutput" where
  "ownOutput v = \<lparr>po_script = ''p2pkh:1Own'', po_satoshis = v\<rparr>"

definition otherOutput :: "int \<Rightarrow> ParsedOutput" where
  "otherOutput v = \<lparr>po_script = ''p2pkh:1Other'', po_satoshis = v\<rparr>"

definition dataOutput :: ParsedOutput where
  "dataOutput = \<lparr>po_script = ''6a'', po_satoshis = 0\<rparr>"

text \<open>
  A finalizer that answers every submission with the given response.
\<close>

definition uploadEnv :: "Response \<Rightarrow> Env" where
  "uploadEnv response = exampleEnv\<lparr>fetch := (\<lambda>_. Resolved response)\<rparr>"

definition exampleUpload :: UploadResult where
  "exampleUpload = \<lparr>up_txId = ''ab12'', pinId = Some ''ab12i0'', status = Some ''success''\<rparr>"

text \<open>
  A complete run: the wallet pays the merge (declared output first, change after), the
  signer signs, and the finalizer accepts.
\<close>

definition pipelineEnv :: Env where
  "pipelineEnv =
     (mergeEnv [ownOutput 1871, ownOutput 300])
       \<lparr>signTransaction := (\<lambda>_. Resolved (Some \<lparr>sig = ''3044'', publicKey = ''02ab''\<rparr>)),
        fetch := (\<lambda>_. Resolved \<lparr>ok = True, http_status = 200,
                               json = Some \<lparr>code = 0, resp_message = None,
                                            data = exampleUpload\<rparr>\<rparr>)\<rparr>"

section \<open>Fee estimation: the margined fee\<close>

subsection \<open>Rounding to the nearest double\<close>

lemma bitLength_bounds:
  assumes "0 < n"
  shows "2 ^ (bitLength n - 1) \<le> n \<and> n < 2 ^ bitLength n \<and> 0 < bitLength n"
  using assms
proof (induction n rule: bitLength.induct)
  case (1 n)
  show ?case
  proof (cases "n div 2 \<le> 0")
    case True
    with "1.prems" have "n = 1" by linarith
    then show ?thesis by (simp add: bitLength.simps [of 1] bitLength.simps [of 0])
  next
    case False
    then have pos: "0 < n div 2" by simp
    have ih: "2 ^ (bitLength (n div 2) - 1) \<le> n div 2 \<and> n div 2 < 2 ^ bitLength (n div 2)
        \<and> 0 < bitLength (n div 2)"
      using "1.prems" pos by (intro "1.IH") simp_all
    have len: "bitLength n = Suc (bitLength (n div 2))"
      using "1.prems" by (subst bitLength.simps) simp
    obtain b where b: "bitLength (n div 2) = Suc b"
      using ih by (cases "bitLength (n div 2)") simp_all
    have lo: "(2::int) ^ Suc b \<le> n"
    proof -
      have "(2::int) ^ b \<le> n div 2" using ih b by simp
      then have "2 * (2::int) ^ b \<le> 2 * (n div 2)" by simp
      also have "\<dots> \<le> n" by simp
      finally show ?thesis by simp
    qed
    have hi: "n < (2::int) ^ Suc (Suc b)"
    proof -
      have "n div 2 + 1 \<le> (2::int) ^ Suc b" using ih b by simp
      then have "2 * (n div 2) + 2 \<le> 2 * (2::int) ^ Suc b" by simp
      moreover have "n < 2 * (n div 2) + 2" by presburger
      ultimately show ?thesis by simp
    qed
    from lo hi show ?thesis by (simp add: len b)
  qed
qed

lemma binadeExponent_bounds:
  assumes "0 < x"
  shows "2 powi binadeExponent x \<le> x \<and> x < 2 powi (binadeExponent x + 1)"
proof (cases "1 \<le> x")
  case True
  let ?n = "\<lfloor>x\<rfloor>"
  have n: "0 < ?n" using True by simp
  note b = bitLength_bounds [OF n]
  obtain k where k: "bitLength ?n = Suc k" using b by (cases "bitLength ?n") simp_all
  have e: "binadeExponent x = int k" using True by (simp add: binadeExponent_def k)
  have "(2::int) ^ k \<le> ?n" using b k by simp
  then have "(of_int ((2::int) ^ k) :: rat) \<le> of_int ?n" by (simp only: of_int_le_iff)
  also have "\<dots> \<le> x" by simp
  finally have lo: "(2::rat) ^ k \<le> x" by simp
  have "?n + 1 \<le> (2::int) ^ Suc k" using b k by simp
  then have "(of_int (?n + 1) :: rat) \<le> of_int ((2::int) ^ Suc k)" by (simp only: of_int_le_iff)
  moreover have "x < of_int (?n + 1)" by linarith
  ultimately have hi: "x < (2::rat) ^ Suc k" by simp
  have p1: "(2::rat) powi int k = 2 ^ k" by simp
  have p2: "(2::rat) powi (int k + 1) = 2 ^ Suc k"
    by (simp add: power_int_add)
  show ?thesis using lo hi by (simp only: e p1 p2)
next
  case False
  then have lt: "x < 1" by simp
  let ?m = "\<lceil>1 / x\<rceil>"
  have big: "1 < 1 / x" using assms lt by simp
  then have m: "0 < ?m - 1" by (simp add: less_ceiling_iff)
  note b = bitLength_bounds [OF m]
  obtain k where k: "bitLength (?m - 1) = Suc k" using b by (cases "bitLength (?m - 1)") simp_all
  have e: "binadeExponent x = - int (Suc k)" using False by (simp add: binadeExponent_def k)
  have "?m \<le> (2::int) ^ Suc k" using b k by simp
  then have c2: "(of_int ?m :: rat) \<le> (2::rat) ^ Suc k"
    by (metis of_int_le_iff of_int_numeral of_int_power)
  have c1: "1 / x \<le> of_int ?m" by (rule le_of_int_ceiling)
  from c1 c2 have "1 / x \<le> (2::rat) ^ Suc k" by (rule order_trans)
  then have lo: "1 / (2::rat) ^ Suc k \<le> x"
    using assms by (simp add: field_simps)
  have "(2::int) ^ k \<le> ?m - 1" using b k by simp
  then have d1: "(2::rat) ^ k \<le> of_int (?m - 1)"
    by (metis of_int_le_iff of_int_numeral of_int_power)
  have d2: "of_int (?m - 1) < 1 / x"
    using ceiling_correct [of "1 / x"] by simp
  from d1 d2 have "(2::rat) ^ k < 1 / x" by (rule le_less_trans)
  then have hi: "x < 1 / (2::rat) ^ k"
    using assms by (simp add: field_simps)
  have p1: "(2::rat) powi (- int (Suc k)) = 1 / 2 ^ Suc k"
    by (simp only: power_int_minus power_int_of_nat inverse_eq_divide)
  have "- int (Suc k) + 1 = - int k" by simp
  then have p2: "(2::rat) powi (- int (Suc k) + 1) = 1 / 2 ^ k"
    by (simp only: power_int_minus power_int_of_nat inverse_eq_divide)
  show ?thesis using lo hi by (simp only: e p1 p2)
qed


lemma roundHalfEven_floor: "\<lfloor>y\<rfloor> \<le> roundHalfEven y \<and> roundHalfEven y \<le> \<lfloor>y\<rfloor> + 1"
  by (simp add: roundHalfEven_def Let_def)

lemma roundHalfEven_of_int [simp]: "roundHalfEven (of_int m) = m"
  by (simp add: roundHalfEven_def Let_def)

lemma roundHalfEven_le_int:
  assumes "y \<le> of_int m"
  shows "roundHalfEven y \<le> m"
proof (cases "y = of_int m")
  case True
  then show ?thesis by simp
next
  case False
  with assms have "y < of_int m" by simp
  then have "\<lfloor>y\<rfloor> < m" by (simp add: floor_less_iff)
  with roundHalfEven_floor [of y] show ?thesis by linarith
qed

lemma roundHalfEven_ge_int:
  assumes "of_int m \<le> y"
  shows "m \<le> roundHalfEven y"
proof -
  have "m \<le> \<lfloor>y\<rfloor>" using assms by (simp add: le_floor_iff)
  with roundHalfEven_floor [of y] show ?thesis by linarith
qed

lemma roundHalfEven_error: "\<bar>of_int (roundHalfEven y) - y\<bar> \<le> 1 / 2"
proof -
  have f: "of_int \<lfloor>y\<rfloor> \<le> y" "y < of_int \<lfloor>y\<rfloor> + 1" by linarith+
  show ?thesis
    using f by (auto simp: roundHalfEven_def Let_def abs_le_iff)
qed


lemma ulpOf_pos: "0 < ulpOf a"
  by (simp add: ulpOf_def)

lemma roundDouble_pos:
  assumes "0 < x"
  shows "roundDouble x = of_int (roundHalfEven (x / ulpOf x)) * ulpOf x"
  using assms by (simp add: roundDouble_def Let_def)

lemma roundDouble_zero [simp]: "roundDouble 0 = 0"
  by (simp add: roundDouble_def)



text \<open>Values below \<open>2^53\<close>: the unit in the last place is \<open>1 / 2^j\<close>.\<close>

lemma ulpOf_small:
  assumes "0 < x" and "x < 2 ^ (Suc n)" and "n \<le> 52"
  shows "\<exists>j. 52 - n \<le> j \<and> ulpOf x = 1 / 2 ^ j"
proof -
  note b = binadeExponent_bounds [OF assms(1)]
  have "binadeExponent x < int (Suc n)"
  proof (rule ccontr)
    assume "\<not> binadeExponent x < int (Suc n)"
    then have "int (Suc n) \<le> binadeExponent x" by simp
    then have "(2::rat) powi int (Suc n) \<le> 2 powi binadeExponent x"
      by (intro power_int_increasing) simp_all
    with b have "(2::rat) ^ Suc n \<le> x" by (simp only: power_int_of_nat) linarith
    with assms(2) show False by simp
  qed
  then have le: "binadeExponent x \<le> int n" by simp
  define j where "j = nat (52 - max (binadeExponent x) (- 1022))"
  have j: "max (binadeExponent x) (- 1022) - 52 = - int j"
    using le assms(3) by (simp add: j_def)
  have "52 - n \<le> j" using le assms(3) by (simp add: j_def)
  moreover have "ulpOf x = 1 / 2 ^ j"
    unfolding ulpOf_def j by (simp only: power_int_minus power_int_of_nat inverse_eq_divide)
  ultimately show ?thesis by blast
qed

lemma roundDouble_le_int:
  assumes "0 < x" and "x < 2 ^ 53" and "x \<le> of_int m"
  shows "roundDouble x \<le> of_int m"
proof -
  from ulpOf_small [OF assms(1), of 52] assms(2)
  obtain j where u: "ulpOf x = 1 / 2 ^ j" by auto
  have "x / ulpOf x \<le> of_int (m * 2 ^ j)"
    using assms(3) by (simp add: u)
  then have "roundHalfEven (x / ulpOf x) \<le> m * 2 ^ j" by (rule roundHalfEven_le_int)
  then have "(of_int (roundHalfEven (x / ulpOf x)) :: rat) \<le> of_int (m * 2 ^ j)"
    by (simp only: of_int_le_iff)
  then show ?thesis
    by (simp add: roundDouble_pos [OF assms(1)] u field_simps)
qed

lemma roundDouble_ge_int:
  assumes "0 < x" and "x < 2 ^ 53" and "of_int m \<le> x"
  shows "of_int m \<le> roundDouble x"
proof -
  from ulpOf_small [OF assms(1), of 52] assms(2)
  obtain j where u: "ulpOf x = 1 / 2 ^ j" by auto
  have "of_int (m * 2 ^ j) \<le> x / ulpOf x"
    using assms(3) by (simp add: u)
  then have "m * 2 ^ j \<le> roundHalfEven (x / ulpOf x)" by (rule roundHalfEven_ge_int)
  then have "(of_int (m * 2 ^ j) :: rat) \<le> of_int (roundHalfEven (x / ulpOf x))"
    by (simp only: of_int_le_iff)
  then show ?thesis
    by (simp add: roundDouble_pos [OF assms(1)] u field_simps)
qed

lemma roundDouble_of_int:
  assumes "0 \<le> n" and "n < 2 ^ 53"
  shows "roundDouble (of_int n) = of_int n"
proof (cases "n = 0")
  case True
  then show ?thesis by simp
next
  case False
  with assms(1) have pos: "(0::rat) < of_int n" by simp
  have lt: "(of_int n :: rat) < 2 ^ 53"
    using assms(2) by (metis of_int_less_iff of_int_numeral of_int_power)
  have "roundDouble (of_int n) \<le> of_int n"
    using pos lt by (rule roundDouble_le_int) simp
  moreover have "(of_int n :: rat) \<le> roundDouble (of_int n)"
    using pos lt by (rule roundDouble_ge_int) simp
  ultimately show ?thesis by simp
qed

lemma roundDouble_error:
  assumes "0 < x" and "x < 2 ^ (Suc n)" and "n \<le> 52"
  shows "\<bar>roundDouble x - x\<bar> \<le> 1 / 2 ^ (Suc (52 - n))"
proof -
  from ulpOf_small [OF assms]
  obtain j where j: "52 - n \<le> j" and u: "ulpOf x = 1 / 2 ^ j" by blast
  have "\<bar>of_int (roundHalfEven (x / ulpOf x)) - x / ulpOf x\<bar> \<le> 1 / 2"
    by (rule roundHalfEven_error)
  then have "\<bar>of_int (roundHalfEven (x / ulpOf x)) - x / ulpOf x\<bar> * ulpOf x \<le> 1 / 2 * ulpOf x"
    using ulpOf_pos [of x] by (intro mult_right_mono) simp_all
  moreover have "\<bar>of_int (roundHalfEven (x / ulpOf x)) - x / ulpOf x\<bar> * ulpOf x
      = \<bar>roundDouble x - x\<bar>"
  proof -
    have "\<bar>of_int (roundHalfEven (x / ulpOf x)) - x / ulpOf x\<bar> * ulpOf x
        = \<bar>(of_int (roundHalfEven (x / ulpOf x)) - x / ulpOf x) * ulpOf x\<bar>"
      using ulpOf_pos [of x] by (simp add: abs_mult)
    also have "(of_int (roundHalfEven (x / ulpOf x)) - x / ulpOf x) * ulpOf x
        = roundDouble x - x"
      using ulpOf_pos [of x] by (simp add: roundDouble_pos [OF assms(1)] algebra_simps)
    finally show ?thesis .
  qed
  ultimately have "\<bar>roundDouble x - x\<bar> \<le> 1 / 2 * ulpOf x" by simp
  also have "\<dots> = 1 / 2 ^ Suc j" by (simp add: u)
  also have "\<dots> \<le> 1 / 2 ^ Suc (52 - n)"
    using j by (intro divide_left_mono power_increasing) simp_all
  finally show ?thesis .
qed


lemma bitLength_1: "bitLength 1 = 1"
  by (simp add: bitLength.simps [of 1] bitLength.simps [of 0])


lemma roundDouble_six_fifths:
  "roundDouble (6 / 5) = 5404319552844595 / 4503599627370496"
  by code_simp

lemma margin_exact:
  assumes "0 \<le> f" and "f \<le> 2 ^ 50"
  shows "\<lceil>roundDouble (of_int f * roundDouble (6 / 5))\<rceil> = \<lceil>of_int f * (6 / 5 :: rat)\<rceil>"
proof (cases "f = 0")
  case True
  then show ?thesis by simp
next
  case False
  with assms(1) have f1: "1 \<le> f" by simp
  define F :: rat where "F = of_int f"
  define d :: rat where "d = 5404319552844595 / 4503599627370496"
  define c where "c = \<lceil>F * (6 / 5)\<rceil>"
  have fr: "1 \<le> F" using f1 by (simp add: F_def)
  have "f \<le> 1125899906842624" using assms(2) by simp
  then have fu: "F \<le> 1125899906842624" by (simp add: F_def)
  have xpos: "0 < F * d" using fr by (simp add: d_def)
  have xle: "F * d \<le> F * (6 / 5)"
    using fr by (intro mult_left_mono) (simp_all add: d_def)
  have near: "F * (6 / 5) - 1 / 20 \<le> F * d"
    unfolding d_def using fu fr by linarith
  have "F * d < 2251799813685248"
    using xle fu by linarith
  then have x51: "F * d < 2 ^ Suc 50" by simp
  have x53: "F * d < 2 ^ 53"
    using \<open>F * d < 2251799813685248\<close> by simp
  have "\<bar>roundDouble (F * d) - F * d\<bar> \<le> 1 / 2 ^ Suc (52 - 50)"
    using xpos x51 by (rule roundDouble_error) simp
  then have "\<bar>roundDouble (F * d) - F * d\<bar> \<le> 1 / 8" by simp
  then have err8: "F * d - 1 / 8 \<le> roundDouble (F * d)" by linarith
  have cup: "F * (6 / 5) \<le> of_int c" unfolding c_def by (rule le_of_int_ceiling)
  have xc: "F * d \<le> of_int c" using xle cup by linarith
  have upper: "roundDouble (F * d) \<le> of_int c"
    using xpos x53 xc by (rule roundDouble_le_int)
  have "of_int c - 1 < F * (6 / 5)"
    unfolding c_def using ceiling_correct [of "F * (6 / 5)"] by linarith
  then have "of_int c * 5 - 5 < F * 6" by linarith
  then have "(of_int (c * 5 - 5) :: rat) < of_int (f * 6)" by (simp add: F_def)
  then have "c * 5 - 5 < f * 6" by (simp only: of_int_less_iff)
  then have "c * 5 - 5 + 1 \<le> f * 6" by linarith
  then have "(of_int (c * 5 - 5 + 1) :: rat) \<le> of_int (f * 6)" by (simp only: of_int_le_iff)
  then have "of_int c * 5 - 5 + 1 \<le> F * 6" by (simp add: F_def)
  then have gap: "of_int c - 1 + 1 / 5 \<le> F * (6 / 5)" by linarith
  have lower: "of_int c - 1 < roundDouble (F * d)"
    using gap near err8 by linarith
  have "\<lceil>roundDouble (F * d)\<rceil> = c"
    using lower upper by (rule ceiling_unique)
  then show ?thesis by (simp only: roundDouble_six_fifths F_def d_def c_def)
qed








subsection \<open>The formula of the specification\<close>


lemma ceil_margin_mono:
  fixes x y :: int
  assumes "x \<le> y"
  shows "\<lceil>of_int x * (6 / 5 :: rat)\<rceil> \<le> \<lceil>of_int y * (6 / 5 :: rat)\<rceil>"
  using assms by (intro ceiling_mono) simp

lemma ceil_rate_mono:
  fixes a b :: int and r :: rat
  assumes "a \<le> b" "0 \<le> r"
  shows "\<lceil>of_int a * r\<rceil> \<le> \<lceil>of_int b * r\<rceil>"
  using assms by (intro ceiling_mono mult_right_mono) simp_all


lemma feeFormula_nonneg:
  assumes "0 \<le> r" "0 \<le> n"
  shows "0 \<le> feeFormula r n"
proof -
  have "0 \<le> of_int (200 + 150 + 2 * 34 + 50 + 91 + n) * r"
    using assms by (intro mult_nonneg_nonneg) simp_all
  then have "0 \<le> \<lceil>of_int (200 + 150 + 2 * 34 + 50 + 91 + n) * r\<rceil>"
    by (simp add: ceiling_le_iff le_ceiling_iff)
  then have "(0::rat) \<le> of_int \<lceil>of_int (200 + 150 + 2 * 34 + 50 + 91 + n) * r\<rceil> * (6 / 5)"
    by simp
  then show ?thesis
    unfolding feeFormula_def by (simp only: zero_le_ceiling)
qed

lemma feeFormula_mono:
  assumes "0 \<le> r" "m \<le> n"
  shows "feeFormula r m \<le> feeFormula r n"
  unfolding feeFormula_def using assms
  by (intro ceil_margin_mono ceil_rate_mono) simp_all


lemma feeFormula_1_1000: "feeFormula 1 1000 = 1871"
  unfolding feeFormula_def by code_simp

lemma feeFormula_1_1001: "feeFormula 1 1001 = 1872"
  unfolding feeFormula_def by code_simp



subsection \<open>The estimator in the range of exact whole numbers\<close>

lemma estimatedTxSize_eq: "estimatedTxSize n = 559 + n"
  by (simp add: estimatedTxSize_def)

lemma estimateUploadFee_rounded:
  "estimateUploadFee env f =
     \<lceil>roundDouble
        (of_int \<lceil>roundDouble (of_int (559 + file_size f)
                    * (if mvcFeeRate env = 0 then 1 else mvcFeeRate env))\<rceil>
         * roundDouble (6 / 5))\<rceil>"
  by (simp only: estimateUploadFee_def estimatedTxSize_eq Let_def)






lemma estimateUploadFee_whole:
  assumes "(if mvcFeeRate env = 0 then 1 else mvcFeeRate env) = of_int k"
    and "0 \<le> k" and "0 \<le> file_size f" and "(559 + file_size f) * k \<le> 2 ^ 50"
  shows "estimateUploadFee env f = feeFormula (of_int k) (file_size f)"
proof -
  define m where "m = (559 + file_size f) * k"
  have m0: "0 \<le> m" unfolding m_def using assms(2,3) by (intro mult_nonneg_nonneg) simp_all
  have m50: "m \<le> 2 ^ 50" unfolding m_def by (rule assms(4))
  have "(2::int) ^ 50 < 2 ^ 53" by simp
  with m50 have m53: "m < 2 ^ 53" by linarith
  have prod: "(of_int (559 + file_size f) :: rat) * of_int k = of_int m"
    by (simp only: m_def of_int_mult)
  have r: "roundDouble (of_int m) = of_int m" using m0 m53 by (rule roundDouble_of_int)
  have c: "\<lceil>of_int m :: rat\<rceil> = m" by (rule ceiling_of_int)
  have "estimateUploadFee env f = \<lceil>roundDouble (of_int m * roundDouble (6 / 5))\<rceil>"
    by (simp only: estimateUploadFee_rounded assms(1) prod r c)
  also have "\<dots> = \<lceil>of_int m * (6 / 5 :: rat)\<rceil>" using m0 m50 by (rule margin_exact)
  also have "\<dots> = feeFormula (of_int k) (file_size f)"
  proof -
    have "(200 + 150 + 2 * 34 + 50 + 91 + file_size f) = 559 + file_size f" by simp
    then show ?thesis by (simp only: feeFormula_def prod c)
  qed
  finally show ?thesis .
qed




lemma estimateUploadFee_rate_1:
  assumes "mvcFeeRate env = 1 \<or> mvcFeeRate env = 0"
    and "0 \<le> file_size f" and "file_size f \<le> 1000000"
  shows "estimateUploadFee env f = feeFormula 1 (file_size f)"
proof -
  have r: "(if mvcFeeRate env = 0 then 1 else mvcFeeRate env) = of_int 1"
    using assms(1) by auto
  have "(559 + file_size f) * 1 \<le> 2 ^ 50" using assms(3) by simp
  with r have "estimateUploadFee env f = feeFormula (of_int 1) (file_size f)"
    using assms(2) by (intro estimateUploadFee_whole) simp_all
  then show ?thesis by simp
qed












section \<open>UTXO selection: the greedy walk\<close>

lemma selectLoop_prefix:
  "\<exists>k. k \<le> length us \<and> (us \<noteq> [] \<longrightarrow> 1 \<le> k)
     \<and> selectLoop env req us sel amt
         = (sel @ map (toUTXO env) (take k us), amt + sum_list (map w_value (take k us)))
     \<and> (\<forall>j. 1 \<le> j \<and> j < k \<longrightarrow> amt + sum_list (map w_value (take j us)) < req + 1)
     \<and> (k < length us \<longrightarrow> req + 1 \<le> amt + sum_list (map w_value (take k us)))"
proof (induction us arbitrary: sel amt)
  case Nil
  show ?case by simp
next
  case (Cons u us)
  show ?case
  proof (cases "req + 1 \<le> amt + w_value u")
    case True
    have "selectLoop env req (u # us) sel amt
            = (sel @ map (toUTXO env) (take 1 (u # us)),
               amt + sum_list (map w_value (take 1 (u # us))))"
      using True by (simp add: Let_def)
    moreover have "req + 1 \<le> amt + sum_list (map w_value (take 1 (u # us)))"
      using True by simp
    ultimately show ?thesis
      by (intro exI [of _ 1]) simp
  next
    case False
    from Cons.IH [of "sel @ [toUTXO env u]" "amt + w_value u"]
    obtain k where k: "k \<le> length us" "us \<noteq> [] \<longrightarrow> 1 \<le> k"
      "selectLoop env req us (sel @ [toUTXO env u]) (amt + w_value u)
         = ((sel @ [toUTXO env u]) @ map (toUTXO env) (take k us),
            (amt + w_value u) + sum_list (map w_value (take k us)))"
      "\<forall>j. 1 \<le> j \<and> j < k \<longrightarrow>
         (amt + w_value u) + sum_list (map w_value (take j us)) < req + 1"
      "k < length us \<longrightarrow> req + 1 \<le> (amt + w_value u) + sum_list (map w_value (take k us))"
      by blast
    have eq: "selectLoop env req (u # us) sel amt
            = (sel @ map (toUTXO env) (take (Suc k) (u # us)),
               amt + sum_list (map w_value (take (Suc k) (u # us))))"
      using False k(3) by (simp add: Let_def)
    have below: "amt + sum_list (map w_value (take j (u # us))) < req + 1"
      if "1 \<le> j" "j < Suc k" for j
    proof (cases j)
      case 0
      with that show ?thesis by simp
    next
      case (Suc j')
      show ?thesis
      proof (cases "j' = 0")
        case True
        with Suc False show ?thesis by simp
      next
        case False
        with Suc that k(4) have "(amt + w_value u) + sum_list (map w_value (take j' us)) < req + 1"
          by simp
        with Suc show ?thesis by simp
      qed
    qed
    have reach: "Suc k < length (u # us) \<longrightarrow>
        req + 1 \<le> amt + sum_list (map w_value (take (Suc k) (u # us)))"
      using k(5) by (simp add: add.assoc)
    show ?thesis
      using k(1) eq below reach by (intro exI [of _ "Suc k"]) simp
  qed
qed

lemma sum_take_le:
  assumes "\<forall>u\<in>set us. 0 \<le> w_value u"
  shows "sum_list (map w_value (take k us)) \<le> sum_list (map w_value us)"
proof -
  have "sum_list (map w_value us)
      = sum_list (map w_value (take k us)) + sum_list (map w_value (drop k us))"
    by (metis append_take_drop_id map_append sum_list.append)
  moreover have "0 \<le> sum_list (map w_value (drop k us))"
    using assms by (intro sum_list_nonneg) (auto dest: in_set_dropD)
  ultimately show ?thesis by simp
qed

lemma mset_sortDescending: "mset (sortDescending us) = mset us"
  by (simp add: sortDescending_def)

lemma set_sortDescending: "set (sortDescending us) = set us"
  by (simp add: sortDescending_def)

lemma sum_sortDescending:
  "sum_list (map w_value (sortDescending us)) = sum_list (map w_value us)"
proof -
  have "mset (map w_value (sortDescending us)) = mset (map w_value us)"
    by (simp add: mset_sortDescending)
  then show ?thesis by (metis sum_mset_sum_list)
qed

lemma sorted_sortDescending:
  "sorted_wrt (\<lambda>a b. w_value b \<le> w_value a) (sortDescending us)"
proof -
  have "sorted (map (\<lambda>u. - w_value u) (sortDescending us))"
    unfolding sortDescending_def by (rule sorted_sort_key)
  then show ?thesis
    by (simp add: sorted_map sorted_wrt_iff_nth_less)
qed

lemma stable_sortDescending:
  "filter (\<lambda>u. w_value u = v) (sortDescending us) = filter (\<lambda>u. w_value u = v) us"
proof -
  have "filter (\<lambda>u. - w_value u = - v) (sort_key (\<lambda>u. - w_value u) us)
      = filter (\<lambda>u. - w_value u = - v) us"
    by (rule sort_key_stable)
  then show ?thesis by (simp add: sortDescending_def)
qed

lemma satoshis_toUTXO: "map satoshis (map (toUTXO env) us) = map w_value us"
  by (simp add: toUTXO_def comp_def)

text \<open>The selection over a non-empty list of survivors.\<close>

lemma selectFrom_survivors:
  assumes "fillerUtxos ws \<noteq> []"
  shows "if sum_list (map w_value (fillerUtxos ws)) < req + 1
     then selectFrom env req ws
            = Inl (InsufficientBalance (req + 1)
                    (sum_list (map w_value (fillerUtxos ws))))
     else \<exists>k. 1 \<le> k \<and> k \<le> length (sortDescending (fillerUtxos ws))
          \<and> selectFrom env req ws
              = Inr \<lparr>utxos = map (toUTXO env)
                               (take k (sortDescending (fillerUtxos ws))),
                     totalAmount = sum_list (map w_value
                               (take k (sortDescending (fillerUtxos ws))))\<rparr>
          \<and> req + 1 \<le> sum_list (map w_value
                               (take k (sortDescending (fillerUtxos ws))))
          \<and> (\<forall>j. 1 \<le> j \<and> j < k \<longrightarrow>
                sum_list (map w_value
                  (take j (sortDescending (fillerUtxos ws)))) < req + 1)"
proof -
  let ?F = "fillerUtxos ws"
  let ?S = "sortDescending ?F"
  have ws: "ws \<noteq> []" using assms by (auto simp: fillerUtxos_def)
  have Sne: "?S \<noteq> []" using assms by (metis mset_sortDescending mset_zero_iff)
  have pos: "\<forall>u\<in>set ?S. 0 \<le> w_value u"
    by (auto simp: set_sortDescending fillerUtxos_def)
  from selectLoop_prefix [of ?S env req "[]" 0]
  obtain k where k: "k \<le> length ?S" "1 \<le> k"
    "selectLoop env req ?S [] 0
       = (map (toUTXO env) (take k ?S), sum_list (map w_value (take k ?S)))"
    "\<forall>j. 1 \<le> j \<and> j < k \<longrightarrow> sum_list (map w_value (take j ?S)) < req + 1"
    "k < length ?S \<longrightarrow> req + 1 \<le> sum_list (map w_value (take k ?S))"
    using Sne by auto
  have sel: "selectFrom env req ws
     = (if sum_list (map w_value (take k ?S)) < req + 1
        then Inl (InsufficientBalance (req + 1) (sum_list (map w_value (take k ?S))))
        else Inr \<lparr>utxos = map (toUTXO env) (take k ?S),
                  totalAmount = sum_list (map w_value (take k ?S))\<rparr>)"
    using ws assms k(3) by (simp add: selectFrom_def Let_def)
  show ?thesis
  proof (cases "sum_list (map w_value ?F) < req + 1")
    case True
    have "sum_list (map w_value (take k ?S)) \<le> sum_list (map w_value ?S)"
      using pos by (rule sum_take_le)
    with True have short: "sum_list (map w_value (take k ?S)) < req + 1"
      by (simp add: sum_sortDescending)
    with k(5) k(1) have "k = length ?S" by force
    then have "sum_list (map w_value (take k ?S)) = sum_list (map w_value ?F)"
      by (simp add: sum_sortDescending)
    with sel short True show ?thesis by simp
  next
    case False
    have reach: "req + 1 \<le> sum_list (map w_value (take k ?S))"
    proof (cases "k < length ?S")
      case True
      with k(5) show ?thesis by simp
    next
      case False
      with k(1) have "k = length ?S" by simp
      then have "sum_list (map w_value (take k ?S)) = sum_list (map w_value ?F)"
        by (simp add: sum_sortDescending)
      with \<open>\<not> sum_list (map w_value ?F) < req + 1\<close> show ?thesis by simp
    qed
    with sel have "selectFrom env req ws
        = Inr \<lparr>utxos = map (toUTXO env) (take k ?S),
               totalAmount = sum_list (map w_value (take k ?S))\<rparr>"
      by simp
    with False k(1,2,4) reach show ?thesis by auto
  qed
qed

lemma getWalletUTXOs_resolved:
  assumes "getUtxos env = Resolved (Some ws)"
  shows "getWalletUTXOs env req
     = (case selectFrom env req ws of Inl e \<Rightarrow> Inl (FailedToGetUTXOs e) | Inr r \<Rightarrow> Inr r)"
  using assms by (simp add: getWalletUTXOs_def)

text \<open>
  Claim C1. For every required amount and every wallet-reported output set with a
  survivor of the dust filter, the selector sorts the survivors descending by amount
  (a permutation of the survivors in which equal amounts keep their order), accumulates
  them in that order and stops at the first output whose inclusion makes the total
  \<open>\<ge> requiredAmount + 1\<close>: the selection is a prefix of length \<open>k \<ge> 1\<close> of the sorted
  survivors, no shorter non-empty prefix reaches the bound, the returned \<open>totalAmount\<close>
  is the sum of the selected outputs and is \<open>\<ge> requiredAmount + 1\<close>. If all survivors
  together do not reach the bound, the call fails with the insufficient-balance error,
  which reports \<open>requiredAmount + 1\<close> and the sum of the survivors.
\<close>

theorem getWalletUTXOs_greedy:
  assumes "getUtxos env = Resolved (Some ws)" and "fillerUtxos ws \<noteq> []"
  shows "sorted_wrt (\<lambda>a b. w_value b \<le> w_value a) (sortDescending (fillerUtxos ws))
     \<and> mset (sortDescending (fillerUtxos ws)) = mset (fillerUtxos ws)
     \<and> (\<forall>v. filter (\<lambda>u. w_value u = v) (sortDescending (fillerUtxos ws))
            = filter (\<lambda>u. w_value u = v) (fillerUtxos ws))
     \<and> (if sum_list (map w_value (fillerUtxos ws)) < req + 1
        then getWalletUTXOs env req
               = Inl (FailedToGetUTXOs (InsufficientBalance (req + 1)
                        (sum_list (map w_value (fillerUtxos ws)))))
        else \<exists>k. 1 \<le> k \<and> k \<le> length (sortDescending (fillerUtxos ws))
             \<and> getWalletUTXOs env req
                 = Inr \<lparr>utxos = map (toUTXO env) (take k (sortDescending (fillerUtxos ws))),
                        totalAmount = sum_list (map satoshis
                          (map (toUTXO env) (take k (sortDescending (fillerUtxos ws)))))\<rparr>
             \<and> req + 1 \<le> sum_list (map satoshis
                          (map (toUTXO env) (take k (sortDescending (fillerUtxos ws)))))
             \<and> (\<forall>j. 1 \<le> j \<and> j < k \<longrightarrow>
                   sum_list (map w_value (take j (sortDescending (fillerUtxos ws))))
                     < req + 1))"
proof -
  note sel = selectFrom_survivors [OF assms(2), of req env]
  have run: "getWalletUTXOs env req
     = (case selectFrom env req ws of Inl e \<Rightarrow> Inl (FailedToGetUTXOs e) | Inr r \<Rightarrow> Inr r)"
    using assms(1) by (rule getWalletUTXOs_resolved)
  have outcome: "if sum_list (map w_value (fillerUtxos ws)) < req + 1
        then getWalletUTXOs env req
               = Inl (FailedToGetUTXOs (InsufficientBalance (req + 1)
                        (sum_list (map w_value (fillerUtxos ws)))))
        else \<exists>k. 1 \<le> k \<and> k \<le> length (sortDescending (fillerUtxos ws))
             \<and> getWalletUTXOs env req
                 = Inr \<lparr>utxos = map (toUTXO env) (take k (sortDescending (fillerUtxos ws))),
                        totalAmount = sum_list (map satoshis
                          (map (toUTXO env) (take k (sortDescending (fillerUtxos ws)))))\<rparr>
             \<and> req + 1 \<le> sum_list (map satoshis
                          (map (toUTXO env) (take k (sortDescending (fillerUtxos ws)))))
             \<and> (\<forall>j. 1 \<le> j \<and> j < k \<longrightarrow>
                   sum_list (map w_value (take j (sortDescending (fillerUtxos ws))))
                     < req + 1)"
  proof (cases "sum_list (map w_value (fillerUtxos ws)) < req + 1")
    case True
    with sel run show ?thesis by simp
  next
    case False
    with sel obtain k where k: "1 \<le> k" "k \<le> length (sortDescending (fillerUtxos ws))"
      "selectFrom env req ws
         = Inr \<lparr>utxos = map (toUTXO env) (take k (sortDescending (fillerUtxos ws))),
                totalAmount = sum_list (map w_value
                                (take k (sortDescending (fillerUtxos ws))))\<rparr>"
      "req + 1 \<le> sum_list (map w_value (take k (sortDescending (fillerUtxos ws))))"
      "\<forall>j. 1 \<le> j \<and> j < k \<longrightarrow>
         sum_list (map w_value (take j (sortDescending (fillerUtxos ws)))) < req + 1"
      by auto
    have "getWalletUTXOs env req
        = Inr \<lparr>utxos = map (toUTXO env) (take k (sortDescending (fillerUtxos ws))),
               totalAmount = sum_list (map satoshis
                 (map (toUTXO env) (take k (sortDescending (fillerUtxos ws)))))\<rparr>"
      using run k(3) by (simp only: satoshis_toUTXO) simp
    moreover have "req + 1 \<le> sum_list (map satoshis
                 (map (toUTXO env) (take k (sortDescending (fillerUtxos ws)))))"
      using k(4) by (simp only: satoshis_toUTXO)
    ultimately show ?thesis using False k(1,2,5) by auto
  qed
  show ?thesis
    using sorted_sortDescending [of "fillerUtxos ws"] mset_sortDescending [of "fillerUtxos ws"]
      stable_sortDescending [of _ "fillerUtxos ws"] outcome
    by simp
qed

text \<open>
  The scenario of the specification: outputs 3000 and 5000, required 1500. The selection
  is the output of 5000 alone. With 10000 required the same wallet is insufficient.
\<close>

theorem getWalletUTXOs_greedy_witness:
  "getUtxos (exampleEnv\<lparr>getUtxos :=
       Resolved (Some [walletOutput ''a'' 3000, walletOutput ''b'' 5000])\<rparr>)
     = Resolved (Some [walletOutput ''a'' 3000, walletOutput ''b'' 5000])
   \<and> fillerUtxos [walletOutput ''a'' 3000, walletOutput ''b'' 5000] \<noteq> []
   \<and> getWalletUTXOs (exampleEnv\<lparr>getUtxos :=
         Resolved (Some [walletOutput ''a'' 3000, walletOutput ''b'' 5000])\<rparr>) 10000
       = Inl (FailedToGetUTXOs (InsufficientBalance 10001 8000))
   \<and> getWalletUTXOs (exampleEnv\<lparr>getUtxos :=
         Resolved (Some [walletOutput ''a'' 3000, walletOutput ''b'' 5000])\<rparr>) 1500
       = Inr \<lparr>utxos = [\<lparr>txId = ''b'', outputIndex = 0, script = ''p2pkh:1Own'',
                          satoshis = 5000\<rparr>],
              totalAmount = 5000\<rparr>"
proof -
  let ?ws = "[walletOutput ''a'' 3000, walletOutput ''b'' 5000]"
  let ?env = "exampleEnv\<lparr>getUtxos := Resolved (Some ?ws)\<rparr>"
  have h1: "getUtxos ?env = Resolved (Some ?ws)" by simp
  have F: "fillerUtxos ?ws = ?ws" by (simp add: fillerUtxos_def walletOutput_def)
  have h2: "fillerUtxos ?ws \<noteq> []" by (simp add: F)
  have S: "sortDescending ?ws = [walletOutput ''b'' 5000, walletOutput ''a'' 3000]"
    by (simp add: sortDescending_def walletOutput_def)
  have U: "toUTXO ?env (walletOutput ''b'' 5000)
      = \<lparr>txId = ''b'', outputIndex = 0, script = ''p2pkh:1Own'', satoshis = 5000\<rparr>"
    by (simp add: toUTXO_def walletOutput_def exampleEnv_def)
  have V: "w_value (walletOutput ''b'' 5000) = 5000" "w_value (walletOutput ''a'' 3000) = 3000"
    by (simp_all add: walletOutput_def)
  have low: "getWalletUTXOs ?env 10000 = Inl (FailedToGetUTXOs (InsufficientBalance 10001 8000))"
    using getWalletUTXOs_greedy [OF h1 h2, of 10000] by (simp add: F V)
  have enough: "\<not> sum_list (map w_value (fillerUtxos ?ws)) < 1500 + 1"
    by (simp add: F V)
  note branch = getWalletUTXOs_greedy [OF h1 h2, of 1500,
      THEN conjunct2, THEN conjunct2, THEN conjunct2]
  from branch enough
  have "\<exists>k. 1 \<le> k \<and> k \<le> length (sortDescending (fillerUtxos ?ws))
       \<and> getWalletUTXOs ?env 1500
           = Inr \<lparr>utxos = map (toUTXO ?env) (take k (sortDescending (fillerUtxos ?ws))),
                  totalAmount = sum_list (map satoshis
                    (map (toUTXO ?env) (take k (sortDescending (fillerUtxos ?ws)))))\<rparr>
       \<and> 1500 + 1 \<le> sum_list (map satoshis
                    (map (toUTXO ?env) (take k (sortDescending (fillerUtxos ?ws)))))
       \<and> (\<forall>j. 1 \<le> j \<and> j < k \<longrightarrow>
             sum_list (map w_value (take j (sortDescending (fillerUtxos ?ws)))) < 1500 + 1)"
    by (simp only: if_False)
  then obtain k where k: "1 \<le> k" "k \<le> length (sortDescending (fillerUtxos ?ws))"
    "getWalletUTXOs ?env 1500
       = Inr \<lparr>utxos = map (toUTXO ?env) (take k (sortDescending (fillerUtxos ?ws))),
              totalAmount = sum_list (map satoshis
                (map (toUTXO ?env) (take k (sortDescending (fillerUtxos ?ws)))))\<rparr>"
    "\<forall>j. 1 \<le> j \<and> j < k \<longrightarrow>
       sum_list (map w_value (take j (sortDescending (fillerUtxos ?ws)))) < 1500 + 1"
    by blast
  have k2: "k \<le> 2" using k(2) by (simp add: F S)
  have "k = 1"
  proof (rule ccontr)
    assume "k \<noteq> 1"
    with k(1) k2 have "k = 2" by simp
    with k(4) have "sum_list (map w_value (take 1 (sortDescending (fillerUtxos ?ws)))) < 1500 + 1"
      by simp
    then show False by (simp add: F S V)
  qed
  with k(3) have "getWalletUTXOs ?env 1500
       = Inr \<lparr>utxos = [\<lparr>txId = ''b'', outputIndex = 0, script = ''p2pkh:1Own'',
                          satoshis = 5000\<rparr>],
              totalAmount = 5000\<rparr>"
    by (simp add: F S U)
  with h1 h2 low show ?thesis by simp
qed

section \<open>UTXO selection: the dust floor\<close>

lemma toUTXO_getUtxos_update: "toUTXO (env\<lparr>getUtxos := g\<rparr>) u = toUTXO env u"
  by (simp add: toUTXO_def)

lemma selectLoop_getUtxos_update:
  "selectLoop (env\<lparr>getUtxos := g\<rparr>) req us sel amt = selectLoop env req us sel amt"
  by (induction us arbitrary: sel amt) (simp_all add: toUTXO_getUtxos_update Let_def)

lemma selectFrom_getUtxos_update:
  "selectFrom (env\<lparr>getUtxos := g\<rparr>) req ws = selectFrom env req ws"
  by (simp add: selectFrom_def selectLoop_getUtxos_update)

lemma selectFrom_same_survivors:
  assumes "fillerUtxos ws \<noteq> []" and "fillerUtxos ws' = fillerUtxos ws"
  shows "selectFrom env req ws' = selectFrom env req ws"
proof -
  have "ws \<noteq> []" "ws' \<noteq> []" using assms by (auto simp: fillerUtxos_def)
  then show ?thesis using assms by (simp add: selectFrom_def)
qed

lemma selectFrom_all_dust:
  assumes "ws \<noteq> []" and "\<forall>u\<in>set ws. w_value u \<le> 600"
  shows "selectFrom env req ws = Inl NoUsableFunds"
proof -
  have "fillerUtxos ws = []"
    using assms(2) by (auto simp: fillerUtxos_def filter_empty_conv)
  with assms(1) show ?thesis by (simp add: selectFrom_def)
qed

lemma selectFrom_selected:
  assumes "selectFrom env req ws = Inr r" and "x \<in> set (utxos r)"
  shows "600 < satoshis x \<and> (\<exists>u\<in>set ws. 600 < w_value u \<and> x = toUTXO env u)"
proof -
  have ne: "fillerUtxos ws \<noteq> []"
    using assms(1) by (auto simp: selectFrom_def split: if_splits)
  note sel = selectFrom_survivors [OF ne, of req env]
  have enough: "\<not> sum_list (map w_value (fillerUtxos ws)) < req + 1"
  proof
    assume "sum_list (map w_value (fillerUtxos ws)) < req + 1"
    with sel assms(1) show False by simp
  qed
  with sel obtain k where
    "selectFrom env req ws
       = Inr \<lparr>utxos = map (toUTXO env) (take k (sortDescending (fillerUtxos ws))),
              totalAmount = sum_list (map w_value
                              (take k (sortDescending (fillerUtxos ws))))\<rparr>"
    by auto
  with assms(1) have "utxos r = map (toUTXO env) (take k (sortDescending (fillerUtxos ws)))"
    by auto
  with assms(2) obtain u where u: "u \<in> set (take k (sortDescending (fillerUtxos ws)))"
    "x = toUTXO env u"
    by auto
  from u(1) have "u \<in> set (fillerUtxos ws)"
    using set_sortDescending [of "fillerUtxos ws"] by (auto dest: in_set_takeD)
  then have "u \<in> set ws" "600 < w_value u" by (auto simp: fillerUtxos_def)
  with u(2) show ?thesis by (auto simp: toUTXO_def)
qed

lemma selectFrom_short:
  assumes "fillerUtxos ws \<noteq> []" and "sum_list (map w_value (fillerUtxos ws)) < req + 1"
  shows "selectFrom env req ws
      = Inl (InsufficientBalance (req + 1) (sum_list (map w_value (fillerUtxos ws))))"
  using selectFrom_survivors [OF assms(1), of req env] assms(2) by simp

text \<open>
  Claim C6. For every wallet-reported output set the selector excludes every output
  whose amount is \<open>\<le> 600\<close> before selection: a wallet that reports no outputs (or no
  list) fails with the no-funds error; a wallet all of whose outputs are \<open>\<le> 600\<close> fails
  with the no-usable-funds error; every selected output is an output of the wallet above
  600; the outputs at or below 600 do not influence the result (two wallets with the same
  survivors give the same result); and when the survivors together stay below
  \<open>requiredAmount + 1\<close> the call fails as insufficient, whatever the outputs at or below
  600 would have added.
\<close>

theorem getWalletUTXOs_dust_floor:
  "(getUtxos env = Resolved None \<or> getUtxos env = Resolved (Some []) \<longrightarrow>
      getWalletUTXOs env req = Inl (FailedToGetUTXOs NoFunds))
   \<and> (getUtxos env = Resolved (Some ws) \<and> ws \<noteq> [] \<and> (\<forall>u\<in>set ws. w_value u \<le> 600) \<longrightarrow>
      getWalletUTXOs env req = Inl (FailedToGetUTXOs NoUsableFunds))
   \<and> (getUtxos env = Resolved (Some ws) \<and> getWalletUTXOs env req = Inr r \<longrightarrow>
      (\<forall>x\<in>set (utxos r).
         600 < satoshis x \<and> (\<exists>u\<in>set ws. 600 < w_value u \<and> x = toUTXO env u)))
   \<and> (getUtxos env = Resolved (Some ws) \<and> fillerUtxos ws \<noteq> []
        \<and> fillerUtxos ws' = fillerUtxos ws \<longrightarrow>
      getWalletUTXOs (env\<lparr>getUtxos := Resolved (Some ws')\<rparr>) req = getWalletUTXOs env req)
   \<and> (getUtxos env = Resolved (Some ws) \<and> fillerUtxos ws \<noteq> []
        \<and> sum_list (map w_value (fillerUtxos ws)) < req + 1 \<longrightarrow>
      getWalletUTXOs env req
        = Inl (FailedToGetUTXOs (InsufficientBalance (req + 1)
                 (sum_list (map w_value (fillerUtxos ws))))))"
proof -
  have none: "getWalletUTXOs env req = Inl (FailedToGetUTXOs NoFunds)"
    if "getUtxos env = Resolved None \<or> getUtxos env = Resolved (Some [])"
    using that by (auto simp: getWalletUTXOs_def selectFrom_def)
  have dust: "getWalletUTXOs env req = Inl (FailedToGetUTXOs NoUsableFunds)"
    if "getUtxos env = Resolved (Some ws)" "ws \<noteq> []" "\<forall>u\<in>set ws. w_value u \<le> 600"
    using that by (simp add: getWalletUTXOs_resolved selectFrom_all_dust)
  have chosen: "600 < satoshis x \<and> (\<exists>u\<in>set ws. 600 < w_value u \<and> x = toUTXO env u)"
    if "getUtxos env = Resolved (Some ws)" "getWalletUTXOs env req = Inr r"
      "x \<in> set (utxos r)" for x
  proof -
    from that(1,2) have "selectFrom env req ws = Inr r"
      by (simp add: getWalletUTXOs_resolved split: sum.splits)
    then show ?thesis using that(3) by (rule selectFrom_selected)
  qed
  have frame: "getWalletUTXOs (env\<lparr>getUtxos := Resolved (Some ws')\<rparr>) req
      = getWalletUTXOs env req"
    if "getUtxos env = Resolved (Some ws)" "fillerUtxos ws \<noteq> []"
      "fillerUtxos ws' = fillerUtxos ws"
  proof -
    have "getWalletUTXOs (env\<lparr>getUtxos := Resolved (Some ws')\<rparr>) req
        = (case selectFrom env req ws' of
             Inl e \<Rightarrow> Inl (FailedToGetUTXOs e) | Inr r \<Rightarrow> Inr r)"
      by (simp add: getWalletUTXOs_def selectFrom_getUtxos_update)
    also have "selectFrom env req ws' = selectFrom env req ws"
      using that(2,3) by (rule selectFrom_same_survivors)
    finally show ?thesis using that(1) by (simp add: getWalletUTXOs_resolved)
  qed
  have short: "getWalletUTXOs env req
        = Inl (FailedToGetUTXOs (InsufficientBalance (req + 1)
                 (sum_list (map w_value (fillerUtxos ws)))))"
    if "getUtxos env = Resolved (Some ws)" "fillerUtxos ws \<noteq> []"
      "sum_list (map w_value (fillerUtxos ws)) < req + 1"
    using that by (simp add: getWalletUTXOs_resolved selectFrom_short)
  show ?thesis
    using none dust chosen frame short by blast
qed

text \<open>
  Outputs of 700, 600 and 600 with 1000 required: the raw sum 1900 covers 1001, the
  survivors' sum 700 does not, and the call fails as insufficient. Outputs of 600 and
  500 leave no survivor. A wallet without outputs has no funds.
\<close>

theorem getWalletUTXOs_dust_floor_witness:
  "getUtxos exampleEnv = Resolved (Some [])
   \<and> getWalletUTXOs exampleEnv 1000 = Inl (FailedToGetUTXOs NoFunds)
   \<and> getWalletUTXOs (exampleEnv\<lparr>getUtxos :=
         Resolved (Some [walletOutput ''a'' 600, walletOutput ''b'' 500])\<rparr>) 1000
       = Inl (FailedToGetUTXOs NoUsableFunds)
   \<and> fillerUtxos [walletOutput ''a'' 700, walletOutput ''b'' 600, walletOutput ''c'' 600]
       = [walletOutput ''a'' 700]
   \<and> (1000::int) + 1 \<le> sum_list (map w_value
         [walletOutput ''a'' 700, walletOutput ''b'' 600, walletOutput ''c'' 600])
   \<and> getWalletUTXOs (exampleEnv\<lparr>getUtxos := Resolved (Some
         [walletOutput ''a'' 700, walletOutput ''b'' 600, walletOutput ''c'' 600])\<rparr>) 1000
       = Inl (FailedToGetUTXOs (InsufficientBalance 1001 700))"
proof -
  let ?dust = "[walletOutput ''a'' 600, walletOutput ''b'' 500]"
  let ?ws = "[walletOutput ''a'' 700, walletOutput ''b'' 600, walletOutput ''c'' 600]"
  have e: "getUtxos exampleEnv = Resolved (Some [])" by (simp add: exampleEnv_def)
  have a: "getWalletUTXOs exampleEnv 1000 = Inl (FailedToGetUTXOs NoFunds)"
    using getWalletUTXOs_dust_floor [of exampleEnv 1000] e by blast
  have d: "\<forall>u\<in>set ?dust. w_value u \<le> 600" by (simp add: walletOutput_def)
  have b: "getWalletUTXOs (exampleEnv\<lparr>getUtxos := Resolved (Some ?dust)\<rparr>) 1000
      = Inl (FailedToGetUTXOs NoUsableFunds)"
    using getWalletUTXOs_dust_floor
      [of "exampleEnv\<lparr>getUtxos := Resolved (Some ?dust)\<rparr>" 1000 ?dust] d
    by simp
  have F: "fillerUtxos ?ws = [walletOutput ''a'' 700]"
    by (simp add: fillerUtxos_def walletOutput_def)
  have raw: "(1000::int) + 1 \<le> sum_list (map w_value ?ws)"
    by (simp add: walletOutput_def)
  have V: "w_value (walletOutput ''a'' 700) = 700" by (simp add: walletOutput_def)
  have c: "getWalletUTXOs (exampleEnv\<lparr>getUtxos := Resolved (Some ?ws)\<rparr>) 1000
      = Inl (FailedToGetUTXOs (InsufficientBalance 1001 700))"
    using getWalletUTXOs_dust_floor
      [of "exampleEnv\<lparr>getUtxos := Resolved (Some ?ws)\<rparr>" 1000 ?ws]
    by (simp add: F V)
  from e a b F raw c show ?thesis by simp
qed

section \<open>The base transaction: precondition and result\<close>

lemma sighashType_value: "sighashType = 195"
  by (simp add: sighashType_def)

lemma sighashType_bits: "sighashType AND 31 = 3" "sighashType AND 128 = 128"
  by (simp_all add: sighashType_value)

lemma baseTx_explicit:
  "baseTx env u =
     \<lparr>version = 10,
      inputs = [\<lparr>prevTxId = txId u, prevOutputIndex = outputIndex u, prevScript = script u,
                 prevSatoshis = satoshis u, unlockingScript = None\<rparr>],
      outputs = [\<lparr>to_address = userAddress env, to_satoshis = 1\<rparr>]\<rparr>"
  by (simp add: baseTx_def txTo_def txFrom_def newTransaction_def)

lemma signedBaseTx_explicit:
  "signedBaseTx env u sr =
     \<lparr>version = 10,
      inputs = [\<lparr>prevTxId = txId u, prevOutputIndex = outputIndex u, prevScript = script u,
                 prevSatoshis = satoshis u,
                 unlockingScript =
                   Some (buildPublicKeyHashIn env (publicKey sr) (sigToDER env (sig sr)) 195)\<rparr>],
      outputs = [\<lparr>to_address = userAddress env, to_satoshis = 1\<rparr>]\<rparr>"
  by (simp add: signedBaseTx_def baseTx_explicit setScript0_def sighashType_value)

lemma buildAndSignBaseTx_rejects:
  assumes "length (utxos d) \<noteq> 1"
  shows "buildAndSignBaseTx env d
      = Inl (FailedToBuildSign (SighashSingleRequires (length (utxos d))))"
  using assms by (simp add: buildAndSignBaseTx_def)


lemma buildAndSignBaseTx_single:
  assumes "length (utxos d) = 1"
  shows "buildAndSignBaseTx env d
      = (case signTransaction env (signRequest env (hd (utxos d))) of
           Rejected m \<Rightarrow> Inl (FailedToBuildSign (Thrown m))
         | Resolved None \<Rightarrow> Inl (FailedToBuildSign NoSignature)
         | Resolved (Some sr) \<Rightarrow>
             Inr (txToString env (signedBaseTx env (hd (utxos d)) sr)))"
proof (cases "signTransaction env (signRequest env (hd (utxos d)))")
  case (Rejected m)
  with assms show ?thesis by (simp add: buildAndSignBaseTx_def)
next
  case (Resolved a)
  with assms show ?thesis by (cases a) (simp_all add: buildAndSignBaseTx_def)
qed


text \<open>
  Claim C2. For every \<open>UTXOData\<close> argument the builder fails at once with the
  contract-violation error \<open>SIGHASH_SINGLE requires exactly 1 UTXO, got n\<close> whenever the
  argument holds zero outputs or two or more, whatever the signer would answer (it is
  not asked); with exactly one output it builds the transaction and asks the signer, and
  the outcome is the signer's; the contract-violation error occurs for no argument with
  exactly one output.
\<close>

theorem buildAndSignBaseTx_exactly_one:
  "(length (utxos d) \<noteq> 1 \<longrightarrow>
      buildAndSignBaseTx env d
        = Inl (FailedToBuildSign (SighashSingleRequires (length (utxos d))))
      \<and> (\<forall>s. buildAndSignBaseTx (env\<lparr>signTransaction := s\<rparr>) d
             = Inl (FailedToBuildSign (SighashSingleRequires (length (utxos d))))))
   \<and> (length (utxos d) = 1 \<longrightarrow>
      buildAndSignBaseTx env d
        = (case signTransaction env (signRequest env (hd (utxos d))) of
             Rejected m \<Rightarrow> Inl (FailedToBuildSign (Thrown m))
           | Resolved None \<Rightarrow> Inl (FailedToBuildSign NoSignature)
           | Resolved (Some sr) \<Rightarrow>
               Inr (txToString env (signedBaseTx env (hd (utxos d)) sr))))
   \<and> (\<forall>n. buildAndSignBaseTx env d = Inl (FailedToBuildSign (SighashSingleRequires n)) \<longrightarrow>
          length (utxos d) \<noteq> 1 \<and> n = length (utxos d))"
proof (intro conjI impI allI)
  assume "length (utxos d) \<noteq> 1"
  then show "buildAndSignBaseTx env d
        = Inl (FailedToBuildSign (SighashSingleRequires (length (utxos d))))"
    by (rule buildAndSignBaseTx_rejects)
next
  fix s
  assume "length (utxos d) \<noteq> 1"
  then show "buildAndSignBaseTx (env\<lparr>signTransaction := s\<rparr>) d
        = Inl (FailedToBuildSign (SighashSingleRequires (length (utxos d))))"
    by (rule buildAndSignBaseTx_rejects)
next
  assume "length (utxos d) = 1"
  then show "buildAndSignBaseTx env d
        = (case signTransaction env (signRequest env (hd (utxos d))) of
             Rejected m \<Rightarrow> Inl (FailedToBuildSign (Thrown m))
           | Resolved None \<Rightarrow> Inl (FailedToBuildSign NoSignature)
           | Resolved (Some sr) \<Rightarrow>
               Inr (txToString env (signedBaseTx env (hd (utxos d)) sr)))"
    by (rule buildAndSignBaseTx_single)
next
  fix n
  assume err: "buildAndSignBaseTx env d = Inl (FailedToBuildSign (SighashSingleRequires n))"
  have ne: "length (utxos d) \<noteq> 1"
  proof
    assume one: "length (utxos d) = 1"
    show False
    proof (cases "signTransaction env (signRequest env (hd (utxos d)))")
      case (Rejected m)
      with err one show False by (simp add: buildAndSignBaseTx_single)
    next
      case (Resolved a)
      with err one show False by (cases a) (simp_all add: buildAndSignBaseTx_single)
    qed
  qed
  then show "length (utxos d) \<noteq> 1" .
  from ne err show "n = length (utxos d)" by (simp add: buildAndSignBaseTx_rejects)
qed


text \<open>
  No output: rejected with count 0. Two outputs: rejected with count 2. One output and
  a signer that declines: the builder went on to the signer and reports its refusal.
\<close>

theorem buildAndSignBaseTx_exactly_one_witness:
  "length (utxos \<lparr>utxos = [], totalAmount = 0\<rparr>) \<noteq> 1
   \<and> buildAndSignBaseTx exampleEnv \<lparr>utxos = [], totalAmount = 0\<rparr>
       = Inl (FailedToBuildSign (SighashSingleRequires 0))
   \<and> buildAndSignBaseTx exampleEnv
        \<lparr>utxos = [toUTXO exampleEnv (walletOutput ''a'' 800),
                   toUTXO exampleEnv (walletOutput ''b'' 700)], totalAmount = 1500\<rparr>
       = Inl (FailedToBuildSign (SighashSingleRequires 2))
   \<and> length (utxos \<lparr>utxos = [toUTXO exampleEnv (walletOutput ''a'' 800)],
                     totalAmount = 800\<rparr>) = 1
   \<and> buildAndSignBaseTx exampleEnv
        \<lparr>utxos = [toUTXO exampleEnv (walletOutput ''a'' 800)], totalAmount = 800\<rparr>
       = Inl (FailedToBuildSign NoSignature)"
proof -
  let ?none = "\<lparr>utxos = [], totalAmount = 0\<rparr>"
  let ?two = "\<lparr>utxos = [toUTXO exampleEnv (walletOutput ''a'' 800),
                   toUTXO exampleEnv (walletOutput ''b'' 700)], totalAmount = 1500\<rparr>"
  let ?one = "\<lparr>utxos = [toUTXO exampleEnv (walletOutput ''a'' 800)], totalAmount = 800\<rparr>"
  have declines: "signTransaction exampleEnv q = Resolved None" for q
    by (simp add: exampleEnv_def)
  have n0: "length (utxos ?none) \<noteq> 1" by simp
  have n2: "length (utxos ?two) \<noteq> 1" by simp
  have n1: "length (utxos ?one) = 1" by simp
  have a: "buildAndSignBaseTx exampleEnv ?none
      = Inl (FailedToBuildSign (SighashSingleRequires (length (utxos ?none))))"
    using buildAndSignBaseTx_exactly_one [of ?none exampleEnv, THEN conjunct1] n0 by blast
  have b: "buildAndSignBaseTx exampleEnv ?two
      = Inl (FailedToBuildSign (SighashSingleRequires (length (utxos ?two))))"
    using buildAndSignBaseTx_exactly_one [of ?two exampleEnv, THEN conjunct1] n2 by blast
  have "buildAndSignBaseTx exampleEnv ?one
      = (case signTransaction exampleEnv (signRequest exampleEnv (hd (utxos ?one))) of
           Rejected m \<Rightarrow> Inl (FailedToBuildSign (Thrown m))
         | Resolved None \<Rightarrow> Inl (FailedToBuildSign NoSignature)
         | Resolved (Some sr) \<Rightarrow>
             Inr (txToString exampleEnv (signedBaseTx exampleEnv (hd (utxos ?one)) sr)))"
    using buildAndSignBaseTx_exactly_one [of ?one exampleEnv, THEN conjunct2, THEN conjunct1]
      n1 by blast
  then have c: "buildAndSignBaseTx exampleEnv ?one = Inl (FailedToBuildSign NoSignature)"
    by (simp only: declines reply.case option.case)
  from a have a': "buildAndSignBaseTx exampleEnv ?none
      = Inl (FailedToBuildSign (SighashSingleRequires 0))" by simp
  from b have b': "buildAndSignBaseTx exampleEnv ?two
      = Inl (FailedToBuildSign (SighashSingleRequires 2))" by simp
  from n0 a' b' n1 c show ?thesis by (intro conjI)
qed


text \<open>
  Claim C5. For every single-output \<open>UTXOData\<close> on which signing succeeds (the signer
  resolves with a signature and a public key), the builder returns the serialisation of
  a version-10 transaction with exactly one input, which spends the given output and
  carries as unlocking script the pay-to-key-hash script built from the public key and
  the DER signature, and exactly one output, which pays 1 satoshi to the user's own
  address. The signature was requested for input 0, for the given output's script and
  amount, under the type \<open>0x3 | 0x80 | 0x40 = 195\<close>: base type 3 (single output) with
  the bit \<open>0x80\<close> (any additional inputs) set.
\<close>

theorem buildAndSignBaseTx_signed:
  assumes "utxos d = [u]"
    and "signTransaction env (signRequest env u) = Resolved (Some sr)"
  shows "buildAndSignBaseTx env d
       = Inr (txToString env
           \<lparr>version = 10,
            inputs = [\<lparr>prevTxId = txId u, prevOutputIndex = outputIndex u,
                       prevScript = script u, prevSatoshis = satoshis u,
                       unlockingScript =
                         Some (buildPublicKeyHashIn env (publicKey sr)
                                 (sigToDER env (sig sr)) sighashType)\<rparr>],
            outputs = [\<lparr>to_address = userAddress env, to_satoshis = 1\<rparr>]\<rparr>)
     \<and> signRequest env u
       = \<lparr>txHex = txToString env
            \<lparr>version = 10,
             inputs = [\<lparr>prevTxId = txId u, prevOutputIndex = outputIndex u,
                        prevScript = script u, prevSatoshis = satoshis u,
                        unlockingScript = None\<rparr>],
             outputs = [\<lparr>to_address = userAddress env, to_satoshis = 1\<rparr>]\<rparr>,
          sign_address = userAddress env, inputIndex = 0, scriptHex = script u,
          sign_satoshis = satoshis u, sigtype = sighashType\<rparr>
     \<and> sighashType = 195 \<and> sighashType AND 31 = 3 \<and> sighashType AND 128 = 128"
proof -
  have one: "length (utxos d) = 1" and hd: "hd (utxos d) = u"
    using assms(1) by simp_all
  have "buildAndSignBaseTx env d = Inr (txToString env (signedBaseTx env u sr))"
    using assms(2) by (simp add: buildAndSignBaseTx_single [OF one] hd)
  moreover have "signRequest env u
       = \<lparr>txHex = txToString env (baseTx env u),
          sign_address = userAddress env, inputIndex = 0, scriptHex = script u,
          sign_satoshis = satoshis u, sigtype = sighashType\<rparr>"
    by (simp add: signRequest_def)
  ultimately show ?thesis
    by (simp add: signedBaseTx_explicit baseTx_explicit sighashType_value)
qed

text \<open>A wallet output of 800 and a signer that returns a signature and a key.\<close>

theorem buildAndSignBaseTx_signed_witness:
  "utxos \<lparr>utxos = [toUTXO exampleEnv (walletOutput ''a'' 800)], totalAmount = 800\<rparr>
     = [toUTXO exampleEnv (walletOutput ''a'' 800)]
   \<and> signTransaction
        (exampleEnv\<lparr>signTransaction :=
           \<lambda>_. Resolved (Some \<lparr>sig = ''3044'', publicKey = ''02ab''\<rparr>)\<rparr>)
        (signRequest
           (exampleEnv\<lparr>signTransaction :=
              \<lambda>_. Resolved (Some \<lparr>sig = ''3044'', publicKey = ''02ab''\<rparr>)\<rparr>)
           (toUTXO exampleEnv (walletOutput ''a'' 800)))
     = Resolved (Some \<lparr>sig = ''3044'', publicKey = ''02ab''\<rparr>)
   \<and> buildAndSignBaseTx
        (exampleEnv\<lparr>signTransaction :=
           \<lambda>_. Resolved (Some \<lparr>sig = ''3044'', publicKey = ''02ab''\<rparr>)\<rparr>)
        \<lparr>utxos = [toUTXO exampleEnv (walletOutput ''a'' 800)], totalAmount = 800\<rparr>
     = Inr ''a''"
proof -
  let ?sr = "\<lparr>sig = ''3044'', publicKey = ''02ab''\<rparr>"
  let ?env = "exampleEnv\<lparr>signTransaction := \<lambda>_. Resolved (Some ?sr)\<rparr>"
  let ?u = "toUTXO exampleEnv (walletOutput ''a'' 800)"
  let ?d = "\<lparr>utxos = [?u], totalAmount = 800\<rparr>"
  have h1: "utxos ?d = [?u]" by simp
  have h2: "signTransaction ?env (signRequest ?env ?u) = Resolved (Some ?sr)" by simp
  have ser: "txToString exampleEnv tx = concat (map prevTxId (inputs tx))" for tx
    by (simp add: exampleEnv_def)
  have id: "txId ?u = ''a''" by (simp add: toUTXO_def walletOutput_def)
  note built = buildAndSignBaseTx_signed [OF h1 h2, THEN conjunct1]
  have "buildAndSignBaseTx ?env ?d = Inr ''a''"
    unfolding built by (simp add: ser id)
  with h1 h2 show ?thesis by simp
qed

section \<open>Consolidation: the merged output\<close>

lemma findOwnOutput_first:
  assumes "n < length outs" and "paysOwn env (outs ! n)"
    and "\<forall>k<n. \<not> paysOwn env (outs ! k)"
  shows "findOwnOutput env outs i = Some (i + n, po_satoshis (outs ! n))"
  using assms
proof (induction outs arbitrary: n i)
  case Nil
  then show ?case by simp
next
  case (Cons out rest)
  show ?case
  proof (cases n)
    case 0
    with Cons.prems show ?thesis by simp
  next
    case (Suc m)
    have skip: "\<not> paysOwn env out" using Cons.prems(3) Suc by auto
    have "m < length rest" using Cons.prems(1) Suc by simp
    moreover have "paysOwn env (rest ! m)" using Cons.prems(2) Suc by simp
    moreover have "\<forall>k<m. \<not> paysOwn env (rest ! k)"
    proof (intro allI impI)
      fix k assume "k < m"
      then have "Suc k < n" using Suc by simp
      with Cons.prems(3) have "\<not> paysOwn env ((out # rest) ! Suc k)" by blast
      then show "\<not> paysOwn env (rest ! k)" by simp
    qed
    ultimately have "findOwnOutput env rest (Suc i) = Some (Suc i + m, po_satoshis (rest ! m))"
      by (rule Cons.IH)
    with skip Suc show ?thesis by simp
  qed
qed

lemma findOwnOutput_none:
  assumes "\<forall>out\<in>set outs. \<not> paysOwn env out"
  shows "findOwnOutput env outs i = None"
  using assms by (induction outs arbitrary: i) simp_all

lemma mergedOutput_first:
  assumes "n < length outs" and "paysOwn env (outs ! n)"
    and "\<forall>k<n. \<not> paysOwn env (outs ! k)"
  shows "mergedOutput env outs = Inr (n, po_satoshis (outs ! n))"
  using findOwnOutput_first [OF assms, of 0] by (simp add: mergedOutput_def)

lemma mergedOutput_fallback:
  assumes "outs \<noteq> []" and "\<forall>out\<in>set outs. \<not> paysOwn env out"
  shows "mergedOutput env outs = Inr (0, po_satoshis (hd outs))"
  using assms(1) findOwnOutput_none [OF assms(2), of 0]
  by (cases outs) (simp_all add: mergedOutput_def)

lemma mergedOutput_no_outputs: "mergedOutput env [] = Inl NoOutputs"
  by (simp add: mergedOutput_def)

lemma mergeResultAt_explicit:
  "mergeResultAt p n a =
     \<lparr>utxos = [\<lparr>txId = payedTxId p, outputIndex = n,
                 script = po_script (parsedOutputs p ! n), satoshis = a\<rparr>],
      totalAmount = a,
      mergeTxId = Some (payedTxId p),
      mergeTxHex = Some (rawHex p)\<rparr>"
  by (simp add: mergeResultAt_def Let_def)

lemma mergeResultOf_first:
  assumes "n < length (parsedOutputs p)" and "paysOwn env (parsedOutputs p ! n)"
    and "\<forall>k<n. \<not> paysOwn env (parsedOutputs p ! k)"
  shows "mergeResultOf env p = Inr (mergeResultAt p n (po_satoshis (parsedOutputs p ! n)))"
  by (simp add: mergeResultOf_def mergedOutput_first [OF assms])

lemma mergeUTXOs_payed:
  assumes "pay env = Some payMethod"
    and "payMethod (mergePayParams env fee) = Resolved payResult"
    and "payedTransactions payResult = s # rest"
  shows "mergeUTXOs env d fee
     = (case mergeResultOf env (composerDeserialize env s) of
          Inl e \<Rightarrow> Inl (FailedToMergeUTXOs e)
        | Inr r \<Rightarrow> Inr r)"
  using assms by (simp add: mergeUTXOs_def)

lemma paysOwn_example:
  "paysOwn exampleEnv (ownOutput v)" "\<not> paysOwn exampleEnv (otherOutput v)"
  "\<not> paysOwn exampleEnv dataOutput"
  by (simp_all add: paysOwn_def exampleEnv_def ownOutput_def otherOutput_def dataOutput_def)

lemma paysOwn_mergeEnv: "paysOwn (mergeEnv outs) out = paysOwn exampleEnv out"
  by (cases "toAddress exampleEnv (po_script out)") (simp_all add: paysOwn_def mergeEnv_def)

lemma mergeEnv_fields:
  "pay (mergeEnv outs) = Some (\<lambda>_. Resolved \<lparr>payedTransactions = [''signed'']\<rparr>)"
  "composerDeserialize (mergeEnv outs) s
     = \<lparr>rawHex = s, payedTxId = ''merged'', parsedOutputs = outs\<rparr>"
  by (simp_all add: mergeEnv_def)

lemma mergeUTXOs_of_merged:
  assumes "pay env = Some payMethod"
    and "payMethod (mergePayParams env fee) = Resolved payResult"
    and "payedTransactions payResult = s # rest"
    and "mergedOutput env (parsedOutputs (composerDeserialize env s)) = Inr (i, a)"
  shows "mergeUTXOs env d fee = Inr (mergeResultAt (composerDeserialize env s) i a)"
proof -
  have "mergeResultOf env (composerDeserialize env s)
      = Inr (mergeResultAt (composerDeserialize env s) i a)"
    by (simp add: mergeResultOf_def assms(4))
  with mergeUTXOs_payed [OF assms(1-3), of d] show ?thesis by simp
qed

lemma mergeUTXOs_of_failed:
  assumes "pay env = Some payMethod"
    and "payMethod (mergePayParams env fee) = Resolved payResult"
    and "payedTransactions payResult = s # rest"
    and "mergedOutput env (parsedOutputs (composerDeserialize env s)) = Inl e"
  shows "mergeUTXOs env d fee = Inl (FailedToMergeUTXOs e)"
proof -
  have "mergeResultOf env (composerDeserialize env s) = Inl e"
    by (simp add: mergeResultOf_def assms(4))
  with mergeUTXOs_payed [OF assms(1-3), of d] show ?thesis by simp
qed

text \<open>
  Claim C7, as the code has it. Let the wallet's \<open>pay\<close> return a signed merge
  transaction \<open>p\<close>. \<open>mergeUTXOs\<close> scans the outputs of \<open>p\<close> in index order and picks
  the first one whose locking script decodes to the user's own address: its result
  names that output's index, script and amount. Consequently, for a transaction with a
  unique self-paying output, that output is identified wherever it stands. When no
  output matches and the transaction has at least one output, output 0 is taken as the
  merged output and \<open>mergeUTXOs\<close> does not fail. When the transaction has no output at
  all, there is no output 0: reading it raises, and \<open>mergeUTXOs\<close> fails with
  \<open>Failed to merge UTXOs\<close>.
\<close>

theorem mergeUTXOs_matching:
  assumes "pay env = Some payMethod"
    and "payMethod (mergePayParams env fee) = Resolved payResult"
    and "payedTransactions payResult = s # rest"
    and "p = composerDeserialize env s"
  shows
  "(n < length (parsedOutputs p) \<and> paysOwn env (parsedOutputs p ! n)
      \<and> (\<forall>k<n. \<not> paysOwn env (parsedOutputs p ! k)) \<longrightarrow>
      mergedOutput env (parsedOutputs p) = Inr (n, po_satoshis (parsedOutputs p ! n))
      \<and> mergeUTXOs env d fee
          = Inr (mergeResultAt p n (po_satoshis (parsedOutputs p ! n))))
   \<and> (n < length (parsedOutputs p) \<and> paysOwn env (parsedOutputs p ! n)
      \<and> (\<forall>k<length (parsedOutputs p). k \<noteq> n \<longrightarrow> \<not> paysOwn env (parsedOutputs p ! k)) \<longrightarrow>
      mergedOutput env (parsedOutputs p) = Inr (n, po_satoshis (parsedOutputs p ! n))
      \<and> mergeUTXOs env d fee
          = Inr (mergeResultAt p n (po_satoshis (parsedOutputs p ! n))))
   \<and> (parsedOutputs p \<noteq> [] \<and> (\<forall>out\<in>set (parsedOutputs p). \<not> paysOwn env out) \<longrightarrow>
      mergedOutput env (parsedOutputs p) = Inr (0, po_satoshis (hd (parsedOutputs p)))
      \<and> mergeUTXOs env d fee
          = Inr (mergeResultAt p 0 (po_satoshis (hd (parsedOutputs p)))))
   \<and> (parsedOutputs p = [] \<longrightarrow>
      mergedOutput env (parsedOutputs p) = Inl NoOutputs
      \<and> mergeUTXOs env d fee = Inl (FailedToMergeUTXOs NoOutputs))
   \<and> mergeResultAt p n a
       = \<lparr>utxos = [\<lparr>txId = payedTxId p, outputIndex = n,
                    script = po_script (parsedOutputs p ! n), satoshis = a\<rparr>],
          totalAmount = a,
          mergeTxId = Some (payedTxId p),
          mergeTxHex = Some (rawHex p)\<rparr>"
proof (intro conjI impI)
  assume h: "n < length (parsedOutputs p) \<and> paysOwn env (parsedOutputs p ! n)
      \<and> (\<forall>k<n. \<not> paysOwn env (parsedOutputs p ! k))"
  then show m: "mergedOutput env (parsedOutputs p)
      = Inr (n, po_satoshis (parsedOutputs p ! n))"
    by (intro mergedOutput_first) simp_all
  from m have "mergedOutput env (parsedOutputs (composerDeserialize env s))
      = Inr (n, po_satoshis (parsedOutputs p ! n))"
    by (simp only: assms(4))
  with assms(1-3) have "mergeUTXOs env d fee
      = Inr (mergeResultAt (composerDeserialize env s) n (po_satoshis (parsedOutputs p ! n)))"
    by (rule mergeUTXOs_of_merged)
  then show "mergeUTXOs env d fee
      = Inr (mergeResultAt p n (po_satoshis (parsedOutputs p ! n)))"
    by (simp only: assms(4))
next
  assume h: "n < length (parsedOutputs p) \<and> paysOwn env (parsedOutputs p ! n)
      \<and> (\<forall>k<length (parsedOutputs p). k \<noteq> n \<longrightarrow> \<not> paysOwn env (parsedOutputs p ! k))"
  then have before: "\<forall>k<n. \<not> paysOwn env (parsedOutputs p ! k)" by auto
  from h before
  show m: "mergedOutput env (parsedOutputs p) = Inr (n, po_satoshis (parsedOutputs p ! n))"
    by (intro mergedOutput_first) simp_all
  from m have "mergedOutput env (parsedOutputs (composerDeserialize env s))
      = Inr (n, po_satoshis (parsedOutputs p ! n))"
    by (simp only: assms(4))
  with assms(1-3) have "mergeUTXOs env d fee
      = Inr (mergeResultAt (composerDeserialize env s) n (po_satoshis (parsedOutputs p ! n)))"
    by (rule mergeUTXOs_of_merged)
  then show "mergeUTXOs env d fee
      = Inr (mergeResultAt p n (po_satoshis (parsedOutputs p ! n)))"
    by (simp only: assms(4))
next
  assume h: "parsedOutputs p \<noteq> [] \<and> (\<forall>out\<in>set (parsedOutputs p). \<not> paysOwn env out)"
  then show m: "mergedOutput env (parsedOutputs p)
      = Inr (0, po_satoshis (hd (parsedOutputs p)))"
    by (intro mergedOutput_fallback) simp_all
  from m have "mergedOutput env (parsedOutputs (composerDeserialize env s))
      = Inr (0, po_satoshis (hd (parsedOutputs p)))"
    by (simp only: assms(4))
  with assms(1-3) have "mergeUTXOs env d fee
      = Inr (mergeResultAt (composerDeserialize env s) 0 (po_satoshis (hd (parsedOutputs p))))"
    by (rule mergeUTXOs_of_merged)
  then show "mergeUTXOs env d fee
      = Inr (mergeResultAt p 0 (po_satoshis (hd (parsedOutputs p))))"
    by (simp only: assms(4))
next
  assume h: "parsedOutputs p = []"
  then show m: "mergedOutput env (parsedOutputs p) = Inl NoOutputs"
    by (simp only: mergedOutput_no_outputs)
  from m have "mergedOutput env (parsedOutputs (composerDeserialize env s)) = Inl NoOutputs"
    by (simp only: assms(4))
  with assms(1-3) show "mergeUTXOs env d fee = Inl (FailedToMergeUTXOs NoOutputs)"
    by (rule mergeUTXOs_of_failed)
next
  show "mergeResultAt p n a
       = \<lparr>utxos = [\<lparr>txId = payedTxId p, outputIndex = n,
                    script = po_script (parsedOutputs p ! n), satoshis = a\<rparr>],
          totalAmount = a,
          mergeTxId = Some (payedTxId p),
          mergeTxHex = Some (rawHex p)\<rparr>"
    by (rule mergeResultAt_explicit)
qed

text \<open>
  The wallet returns the signed transaction \<open>signed\<close> with id \<open>merged\<close>. The
  self-paying output alone at index 2, behind an output to another address and a data
  output; the same output at index 0; and a transaction without a self-paying output,
  where output 0 is taken.
\<close>

theorem mergeUTXOs_matching_witness:
  "paysOwn exampleEnv (ownOutput 1871) \<and> \<not> paysOwn exampleEnv (otherOutput 500)
   \<and> \<not> paysOwn exampleEnv dataOutput
   \<and> mergeUTXOs (mergeEnv [otherOutput 500, dataOutput, ownOutput 1871])
        \<lparr>utxos = [], totalAmount = 0\<rparr> 1871
       = Inr \<lparr>utxos = [\<lparr>txId = ''merged'', outputIndex = 2, script = ''p2pkh:1Own'',
                          satoshis = 1871\<rparr>],
              totalAmount = 1871, mergeTxId = Some ''merged'', mergeTxHex = Some ''signed''\<rparr>
   \<and> mergeUTXOs (mergeEnv [ownOutput 1871, otherOutput 500, dataOutput])
        \<lparr>utxos = [], totalAmount = 0\<rparr> 1871
       = Inr \<lparr>utxos = [\<lparr>txId = ''merged'', outputIndex = 0, script = ''p2pkh:1Own'',
                          satoshis = 1871\<rparr>],
              totalAmount = 1871, mergeTxId = Some ''merged'', mergeTxHex = Some ''signed''\<rparr>
   \<and> mergeUTXOs (mergeEnv [otherOutput 500, dataOutput])
        \<lparr>utxos = [], totalAmount = 0\<rparr> 1871
       = Inr \<lparr>utxos = [\<lparr>txId = ''merged'', outputIndex = 0, script = ''p2pkh:1Other'',
                          satoshis = 500\<rparr>],
              totalAmount = 500, mergeTxId = Some ''merged'', mergeTxHex = Some ''signed''\<rparr>"
proof -
  let ?pr = "\<lparr>payedTransactions = [''signed'']\<rparr>"
  let ?d = "\<lparr>utxos = [], totalAmount = 0\<rparr>"
  let ?last = "\<lparr>rawHex = ''signed'', payedTxId = ''merged'',
         parsedOutputs = [otherOutput 500, dataOutput, ownOutput 1871]\<rparr>"
  let ?first = "\<lparr>rawHex = ''signed'', payedTxId = ''merged'',
         parsedOutputs = [ownOutput 1871, otherOutput 500, dataOutput]\<rparr>"
  let ?nomatch = "\<lparr>rawHex = ''signed'', payedTxId = ''merged'',
         parsedOutputs = [otherOutput 500, dataOutput]\<rparr>"
  have h1: "pay (mergeEnv outs) = Some (\<lambda>_. Resolved ?pr)" for outs
    by (rule mergeEnv_fields)
  have h2: "(\<lambda>_. Resolved ?pr) (mergePayParams (mergeEnv outs) 1871) = Resolved ?pr" for outs
    by simp
  have h3: "payedTransactions ?pr = ''signed'' # []" by simp
  have h4: "\<lparr>rawHex = ''signed'', payedTxId = ''merged'', parsedOutputs = outs\<rparr>
      = composerDeserialize (mergeEnv outs) ''signed''" for outs
    by (simp only: mergeEnv_fields)
  have uniq2: "2 < length (parsedOutputs ?last)
      \<and> paysOwn (mergeEnv [otherOutput 500, dataOutput, ownOutput 1871]) (parsedOutputs ?last ! 2)
      \<and> (\<forall>k<length (parsedOutputs ?last). k \<noteq> 2 \<longrightarrow>
            \<not> paysOwn (mergeEnv [otherOutput 500, dataOutput, ownOutput 1871])
                (parsedOutputs ?last ! k))"
    by (simp add: paysOwn_mergeEnv paysOwn_example less_Suc_eq numeral_3_eq_3)
  have uniq0: "0 < length (parsedOutputs ?first)
      \<and> paysOwn (mergeEnv [ownOutput 1871, otherOutput 500, dataOutput]) (parsedOutputs ?first ! 0)
      \<and> (\<forall>k<length (parsedOutputs ?first). k \<noteq> 0 \<longrightarrow>
            \<not> paysOwn (mergeEnv [ownOutput 1871, otherOutput 500, dataOutput])
                (parsedOutputs ?first ! k))"
    by (simp add: paysOwn_mergeEnv paysOwn_example less_Suc_eq numeral_3_eq_3)
  have none: "parsedOutputs ?nomatch \<noteq> []
      \<and> (\<forall>out\<in>set (parsedOutputs ?nomatch).
            \<not> paysOwn (mergeEnv [otherOutput 500, dataOutput]) out)"
    by (simp add: paysOwn_mergeEnv paysOwn_example)
  have a: "mergeUTXOs (mergeEnv [otherOutput 500, dataOutput, ownOutput 1871]) ?d 1871
      = Inr (mergeResultAt ?last 2 (po_satoshis (parsedOutputs ?last ! 2)))"
    using mergeUTXOs_matching [OF h1 h2 h3 h4, of 2 "[otherOutput 500, dataOutput, ownOutput 1871]" ?d,
        THEN conjunct2, THEN conjunct1] uniq2
    by blast
  have b: "mergeUTXOs (mergeEnv [ownOutput 1871, otherOutput 500, dataOutput]) ?d 1871
      = Inr (mergeResultAt ?first 0 (po_satoshis (parsedOutputs ?first ! 0)))"
    using mergeUTXOs_matching [OF h1 h2 h3 h4, of 0 "[ownOutput 1871, otherOutput 500, dataOutput]" ?d,
        THEN conjunct2, THEN conjunct1] uniq0
    by blast
  have c: "mergeUTXOs (mergeEnv [otherOutput 500, dataOutput]) ?d 1871
      = Inr (mergeResultAt ?nomatch 0 (po_satoshis (hd (parsedOutputs ?nomatch))))"
    using mergeUTXOs_matching [OF h1 h2 h3 h4, of 0 "[otherOutput 500, dataOutput]" ?d,
        THEN conjunct2, THEN conjunct2, THEN conjunct1] none
    by blast
  have a': "mergeUTXOs (mergeEnv [otherOutput 500, dataOutput, ownOutput 1871]) ?d 1871
      = Inr \<lparr>utxos = [\<lparr>txId = ''merged'', outputIndex = 2, script = ''p2pkh:1Own'',
                          satoshis = 1871\<rparr>],
              totalAmount = 1871, mergeTxId = Some ''merged'', mergeTxHex = Some ''signed''\<rparr>"
    unfolding a by (simp add: mergeResultAt_explicit ownOutput_def)
  have b': "mergeUTXOs (mergeEnv [ownOutput 1871, otherOutput 500, dataOutput]) ?d 1871
      = Inr \<lparr>utxos = [\<lparr>txId = ''merged'', outputIndex = 0, script = ''p2pkh:1Own'',
                          satoshis = 1871\<rparr>],
              totalAmount = 1871, mergeTxId = Some ''merged'', mergeTxHex = Some ''signed''\<rparr>"
    unfolding b by (simp add: mergeResultAt_explicit ownOutput_def)
  have c': "mergeUTXOs (mergeEnv [otherOutput 500, dataOutput]) ?d 1871
      = Inr \<lparr>utxos = [\<lparr>txId = ''merged'', outputIndex = 0, script = ''p2pkh:1Other'',
                          satoshis = 500\<rparr>],
              totalAmount = 500, mergeTxId = Some ''merged'', mergeTxHex = Some ''signed''\<rparr>"
    unfolding c by (simp add: mergeResultAt_explicit otherOutput_def)
  have own: "paysOwn exampleEnv (ownOutput 1871)" by (rule paysOwn_example)
  have other: "\<not> paysOwn exampleEnv (otherOutput 500)" by (rule paysOwn_example)
  have nodata: "\<not> paysOwn exampleEnv dataOutput" by (rule paysOwn_example)
  from own other nodata a' b' c' show ?thesis by (intro conjI)
qed

text \<open>
  The claim as stated fails for a signed transaction without outputs: no output
  matches, and instead of falling back to output 0 the consolidator fails.
\<close>

theorem mergeUTXOs_no_outputs_counterexample:
  "parsedOutputs (composerDeserialize (mergeEnv []) ''signed'') = []
   \<and> findOwnOutput (mergeEnv [])
        (parsedOutputs (composerDeserialize (mergeEnv []) ''signed'')) 0 = None
   \<and> mergeUTXOs (mergeEnv []) \<lparr>utxos = [], totalAmount = 0\<rparr> 1871
       = Inl (FailedToMergeUTXOs NoOutputs)"
proof -
  let ?pr = "\<lparr>payedTransactions = [''signed'']\<rparr>"
  have outs: "parsedOutputs (composerDeserialize (mergeEnv []) ''signed'') = []"
    by (simp add: mergeEnv_fields)
  have h1: "pay (mergeEnv []) = Some (\<lambda>_. Resolved ?pr)" by (rule mergeEnv_fields)
  have h2: "(\<lambda>_. Resolved ?pr) (mergePayParams (mergeEnv []) 1871) = Resolved ?pr" by simp
  have h3: "payedTransactions ?pr = ''signed'' # []" by simp
  have h4: "mergedOutput (mergeEnv [])
      (parsedOutputs (composerDeserialize (mergeEnv []) ''signed'')) = Inl NoOutputs"
    by (simp only: outs mergedOutput_no_outputs)
  have f: "mergeUTXOs (mergeEnv []) \<lparr>utxos = [], totalAmount = 0\<rparr> 1871
      = Inl (FailedToMergeUTXOs NoOutputs)"
    using h1 h2 h3 h4 by (rule mergeUTXOs_of_failed)
  have n: "findOwnOutput (mergeEnv [])
      (parsedOutputs (composerDeserialize (mergeEnv []) ''signed'')) 0 = None"
    by (simp only: outs findOwnOutput.simps)
  from outs n f show ?thesis by (intro conjI)
qed


section \<open>Consolidation: the amount of the merged output\<close>

lemma mergePayParams_transactions:
  "transactions (mergePayParams env fee)
     = [\<lparr>txComposer = composerSerialize env
            \<lparr>version = 10, inputs = [],
             outputs = [\<lparr>to_address = userAddress env, to_satoshis = fee\<rparr>]\<rparr>,
         message = ''Merge UTXOs''\<rparr>]"
  by (simp add: mergePayParams_def txTo_def newTransaction_def Let_def)

text \<open>
  Claim C4, as the code has it. Whenever the wallet's \<open>pay\<close> returns a signed
  transaction that contains an output paying the user's own address, the consolidator
  succeeds and returns exactly one output: the first self-paying output of the signed
  transaction, with the amount that output carries there, together with the merge
  transaction id and raw hex. The request declared a single output of the estimated fee
  to the user's address, but the returned amount is read from the signed transaction and
  is not compared with the declared target; it does not depend on the originally
  selected outputs.
\<close>

theorem mergeUTXOs_merged_amount:
  assumes "pay env = Some payMethod"
    and "payMethod (mergePayParams env fee) = Resolved payResult"
    and "payedTransactions payResult = s # rest"
    and "n < length (parsedOutputs (composerDeserialize env s))"
    and "paysOwn env (parsedOutputs (composerDeserialize env s) ! n)"
    and "\<forall>k<n. \<not> paysOwn env (parsedOutputs (composerDeserialize env s) ! k)"
  shows "mergeUTXOs env d fee
       = Inr \<lparr>utxos = [\<lparr>txId = payedTxId (composerDeserialize env s),
                          outputIndex = n,
                          script = po_script (parsedOutputs (composerDeserialize env s) ! n),
                          satoshis =
                            po_satoshis (parsedOutputs (composerDeserialize env s) ! n)\<rparr>],
              totalAmount = po_satoshis (parsedOutputs (composerDeserialize env s) ! n),
              mergeTxId = Some (payedTxId (composerDeserialize env s)),
              mergeTxHex = Some (rawHex (composerDeserialize env s))\<rparr>
     \<and> transactions (mergePayParams env fee)
       = [\<lparr>txComposer = composerSerialize env
              \<lparr>version = 10, inputs = [],
               outputs = [\<lparr>to_address = userAddress env, to_satoshis = fee\<rparr>]\<rparr>,
           message = ''Merge UTXOs''\<rparr>]"
proof -
  have "mergeUTXOs env d fee
      = (case mergeResultOf env (composerDeserialize env s) of
           Inl e \<Rightarrow> Inl (FailedToMergeUTXOs e)
         | Inr r \<Rightarrow> Inr r)"
    using assms(1-3) by (rule mergeUTXOs_payed)
  also have "mergeResultOf env (composerDeserialize env s)
      = Inr (mergeResultAt (composerDeserialize env s) n
               (po_satoshis (parsedOutputs (composerDeserialize env s) ! n)))"
    using assms(4-6) by (rule mergeResultOf_first)
  finally show ?thesis
    by (simp add: mergeResultAt_explicit mergePayParams_transactions)
qed

text \<open>
  The wallet keeps the declared output of 1871 first and appends its change of 300:
  the merged output is the declared one.
\<close>

theorem mergeUTXOs_merged_amount_witness:
  "pay (mergeEnv [ownOutput 1871, ownOutput 300])
     = Some (\<lambda>_. Resolved \<lparr>payedTransactions = [''signed'']\<rparr>)
   \<and> paysOwn (mergeEnv [ownOutput 1871, ownOutput 300]) (ownOutput 1871)
   \<and> mergeUTXOs (mergeEnv [ownOutput 1871, ownOutput 300])
        \<lparr>utxos = [], totalAmount = 0\<rparr> 1871
       = Inr \<lparr>utxos = [\<lparr>txId = ''merged'', outputIndex = 0, script = ''p2pkh:1Own'',
                          satoshis = 1871\<rparr>],
              totalAmount = 1871, mergeTxId = Some ''merged'', mergeTxHex = Some ''signed''\<rparr>"
proof -
  let ?env = "mergeEnv [ownOutput 1871, ownOutput 300]"
  let ?pr = "\<lparr>payedTransactions = [''signed'']\<rparr>"
  have h1: "pay ?env = Some (\<lambda>_. Resolved ?pr)" by (rule mergeEnv_fields)
  have h2: "(\<lambda>_. Resolved ?pr) (mergePayParams ?env 1871) = Resolved ?pr" by simp
  have h3: "payedTransactions ?pr = ''signed'' # []" by simp
  have outs: "parsedOutputs (composerDeserialize ?env ''signed'')
      = [ownOutput 1871, ownOutput 300]"
    by (simp add: mergeEnv_fields)
  have h4: "0 < length (parsedOutputs (composerDeserialize ?env ''signed''))"
    by (simp add: outs)
  have h5: "paysOwn ?env (parsedOutputs (composerDeserialize ?env ''signed'') ! 0)"
    by (simp add: outs paysOwn_mergeEnv paysOwn_example)
  have h6: "\<forall>k<0. \<not> paysOwn ?env (parsedOutputs (composerDeserialize ?env ''signed'') ! k)"
    by simp
  note r = mergeUTXOs_merged_amount [OF h1 h2 h3 h4 h5 h6, THEN conjunct1,
      of "\<lparr>utxos = [], totalAmount = 0\<rparr>"]
  have "mergeUTXOs ?env \<lparr>utxos = [], totalAmount = 0\<rparr> 1871
       = Inr \<lparr>utxos = [\<lparr>txId = ''merged'', outputIndex = 0, script = ''p2pkh:1Own'',
                          satoshis = 1871\<rparr>],
              totalAmount = 1871, mergeTxId = Some ''merged'', mergeTxHex = Some ''signed''\<rparr>"
    unfolding r by (simp add: mergeEnv_fields ownOutput_def)
  moreover have "paysOwn ?env (ownOutput 1871)"
    by (simp add: paysOwn_mergeEnv paysOwn_example)
  ultimately show ?thesis using h1 by (intro conjI)
qed

text \<open>
  The claim as stated fails when the signed transaction carries the wallet's change of
  300 to the user's address before the declared output of 1871: the consolidator
  succeeds, the transaction contains an output paying the user's address, and the merged
  output has amount 300, not the declared target 1871.
\<close>

theorem mergeUTXOs_amount_counterexample:
  "paysOwn (mergeEnv [ownOutput 300, ownOutput 1871]) (ownOutput 300)
   \<and> mergeUTXOs (mergeEnv [ownOutput 300, ownOutput 1871])
        \<lparr>utxos = [], totalAmount = 0\<rparr> 1871
       = Inr \<lparr>utxos = [\<lparr>txId = ''merged'', outputIndex = 0, script = ''p2pkh:1Own'',
                          satoshis = 300\<rparr>],
              totalAmount = 300, mergeTxId = Some ''merged'', mergeTxHex = Some ''signed''\<rparr>
   \<and> (300::int) \<noteq> 1871"
proof -
  let ?env = "mergeEnv [ownOutput 300, ownOutput 1871]"
  have own: "paysOwn ?env (ownOutput 300)"
    by (simp add: paysOwn_mergeEnv paysOwn_example)
  have "mergedOutput ?env [ownOutput 300, ownOutput 1871] = Inr (0, 300)"
    using own by (simp add: mergedOutput_def ownOutput_def)
  then have "mergeUTXOs ?env \<lparr>utxos = [], totalAmount = 0\<rparr> 1871
       = Inr \<lparr>utxos = [\<lparr>txId = ''merged'', outputIndex = 0, script = ''p2pkh:1Own'',
                          satoshis = 300\<rparr>],
              totalAmount = 300, mergeTxId = Some ''merged'', mergeTxHex = Some ''signed''\<rparr>"
    by (simp add: mergeUTXOs_def mergeEnv_fields mergeResultOf_def mergeResultAt_explicit
        ownOutput_def)
  with own show ?thesis by simp
qed


section \<open>Consolidation: independence of the selection\<close>

lemma estimateUploadFee_getUtxos_update:
  "estimateUploadFee (env\<lparr>getUtxos := g\<rparr>) file = estimateUploadFee env file"
  by (simp add: estimateUploadFee_def)

lemma paysOwn_getUtxos_update: "paysOwn (env\<lparr>getUtxos := g\<rparr>) out = paysOwn env out"
  by (cases "toAddress env (po_script out)") (simp_all add: paysOwn_def)

lemma findOwnOutput_getUtxos_update:
  "findOwnOutput (env\<lparr>getUtxos := g\<rparr>) outs i = findOwnOutput env outs i"
  by (induction outs arbitrary: i) (simp_all add: paysOwn_getUtxos_update)

lemma mergeResultOf_getUtxos_update:
  "mergeResultOf (env\<lparr>getUtxos := g\<rparr>) p = mergeResultOf env p"
  by (simp add: mergeResultOf_def mergedOutput_def findOwnOutput_getUtxos_update)

lemma mergePayParams_getUtxos_update:
  "mergePayParams (env\<lparr>getUtxos := g\<rparr>) fee = mergePayParams env fee"
  by (simp add: mergePayParams_def)

lemma mergeUTXOs_getUtxos_update:
  "mergeUTXOs (env\<lparr>getUtxos := g\<rparr>) d fee = mergeUTXOs env d fee"
  by (simp add: mergeUTXOs_def mergeResultOf_getUtxos_update mergePayParams_getUtxos_update
      cong: option.case_cong reply.case_cong list.case_cong)

lemma signRequest_getUtxos_update:
  "signRequest (env\<lparr>getUtxos := g\<rparr>) u = signRequest env u"
  by (simp add: signRequest_def baseTx_def)

lemma signedBaseTx_getUtxos_update:
  "signedBaseTx (env\<lparr>getUtxos := g\<rparr>) u sr = signedBaseTx env u sr"
  by (simp add: signedBaseTx_def baseTx_def)

lemma buildAndSignBaseTx_getUtxos_update:
  "buildAndSignBaseTx (env\<lparr>getUtxos := g\<rparr>) d = buildAndSignBaseTx env d"
  by (simp add: buildAndSignBaseTx_def signRequest_getUtxos_update
      signedBaseTx_getUtxos_update Let_def
      cong: option.case_cong reply.case_cong)

lemma uploadForm_getUtxos_update:
  "uploadForm (env\<lparr>getUtxos := g\<rparr>) file pre t m = uploadForm env file pre t m"
  by (simp add: uploadForm_def)

lemma directUpload_getUtxos_update:
  "directUpload (env\<lparr>getUtxos := g\<rparr>) file pre t m = directUpload env file pre t m"
  by (simp add: directUpload_def uploadForm_getUtxos_update)

lemma mergeUTXOs_unread: "mergeUTXOs env d1 fee = mergeUTXOs env d2 fee"
  by (simp add: mergeUTXOs_def)

lemma upload_after_merge:
  assumes "getWalletUTXOs env (estimateUploadFee env file) = Inr s"
    and "1 < length (utxos s)"
  shows "uploadFileToChainDirect env file
     = (case mergeUTXOs env d0 (estimateUploadFee env file) of
          Inl e \<Rightarrow> Inl e
        | Inr m \<Rightarrow>
            (case buildAndSignBaseTx env \<lparr>utxos = utxos m, totalAmount = totalAmount m\<rparr> of
               Inl e \<Rightarrow> Inl e
             | Inr preTxHex \<Rightarrow>
                 directUpload env file preTxHex (totalAmount m)
                   (case mergeTxHex m of None \<Rightarrow> [] | Some h \<Rightarrow> h)))"
proof -
  have same: "mergeUTXOs env s (estimateUploadFee env file)
      = mergeUTXOs env d0 (estimateUploadFee env file)"
    by (rule mergeUTXOs_unread)
  show ?thesis
  proof (cases "mergeUTXOs env d0 (estimateUploadFee env file)")
    case (Inl e)
    with assms same show ?thesis
      by (simp add: uploadFileToChainDirect_def finalUtxoOf_def Let_def)
  next
    case (Inr m)
    with assms same show ?thesis
      by (simp add: uploadFileToChainDirect_def finalUtxoOf_def Let_def cong: sum.case_cong)
  qed
qed

text \<open>
  Claim C10. The consolidator's result does not depend on the outputs the selector
  chose: for any two \<open>UTXOData\<close> arguments and the same estimated fee, \<open>mergeUTXOs\<close>
  returns the same result in the same environment (the same wallet \<open>pay\<close> responses),
  because the parameter is never read. When the selection holds more than one output,
  the pipeline continues with the merged output and its amount in place of the selected
  set and its total: its result is that of building, signing and uploading from the
  merge result alone. Hence two wallets whose selections both hold more than one output
  lead to the same pipeline result when everything else is the same.
\<close>

theorem mergeUTXOs_ignores_selection:
  "mergeUTXOs env d1 fee = mergeUTXOs env d2 fee
   \<and> (getWalletUTXOs env (estimateUploadFee env file) = Inr s \<and> 1 < length (utxos s) \<longrightarrow>
      uploadFileToChainDirect env file
        = (case mergeUTXOs env d0 (estimateUploadFee env file) of
             Inl e \<Rightarrow> Inl e
           | Inr m \<Rightarrow>
               (case buildAndSignBaseTx env
                       \<lparr>utxos = utxos m, totalAmount = totalAmount m\<rparr> of
                  Inl e \<Rightarrow> Inl e
                | Inr preTxHex \<Rightarrow>
                    directUpload env file preTxHex (totalAmount m)
                      (case mergeTxHex m of None \<Rightarrow> [] | Some h \<Rightarrow> h))))
   \<and> (getWalletUTXOs (env\<lparr>getUtxos := g1\<rparr>) (estimateUploadFee env file) = Inr s1
        \<and> 1 < length (utxos s1)
        \<and> getWalletUTXOs (env\<lparr>getUtxos := g2\<rparr>) (estimateUploadFee env file) = Inr s2
        \<and> 1 < length (utxos s2) \<longrightarrow>
      uploadFileToChainDirect (env\<lparr>getUtxos := g1\<rparr>) file
        = uploadFileToChainDirect (env\<lparr>getUtxos := g2\<rparr>) file)"
proof (intro conjI impI)
  show "mergeUTXOs env d1 fee = mergeUTXOs env d2 fee" by (rule mergeUTXOs_unread)
next
  assume h: "getWalletUTXOs env (estimateUploadFee env file) = Inr s \<and> 1 < length (utxos s)"
  from h have a: "getWalletUTXOs env (estimateUploadFee env file) = Inr s" by simp
  from h have b: "1 < length (utxos s)" by simp
  from a b show "uploadFileToChainDirect env file
        = (case mergeUTXOs env d0 (estimateUploadFee env file) of
             Inl e \<Rightarrow> Inl e
           | Inr m \<Rightarrow>
               (case buildAndSignBaseTx env
                       \<lparr>utxos = utxos m, totalAmount = totalAmount m\<rparr> of
                  Inl e \<Rightarrow> Inl e
                | Inr preTxHex \<Rightarrow>
                    directUpload env file preTxHex (totalAmount m)
                      (case mergeTxHex m of None \<Rightarrow> [] | Some h \<Rightarrow> h)))"
    by (rule upload_after_merge)
next
  assume h: "getWalletUTXOs (env\<lparr>getUtxos := g1\<rparr>) (estimateUploadFee env file) = Inr s1
        \<and> 1 < length (utxos s1)
        \<and> getWalletUTXOs (env\<lparr>getUtxos := g2\<rparr>) (estimateUploadFee env file) = Inr s2
        \<and> 1 < length (utxos s2)"
  let ?d = "\<lparr>utxos = [], totalAmount = 0\<rparr>"
  have one: "uploadFileToChainDirect (env\<lparr>getUtxos := g\<rparr>) file
     = (case mergeUTXOs env ?d (estimateUploadFee env file) of
          Inl e \<Rightarrow> Inl e
        | Inr m \<Rightarrow>
            (case buildAndSignBaseTx env \<lparr>utxos = utxos m, totalAmount = totalAmount m\<rparr> of
               Inl e \<Rightarrow> Inl e
             | Inr preTxHex \<Rightarrow>
                 directUpload env file preTxHex (totalAmount m)
                   (case mergeTxHex m of None \<Rightarrow> [] | Some h \<Rightarrow> h)))"
    if "getWalletUTXOs (env\<lparr>getUtxos := g\<rparr>) (estimateUploadFee env file) = Inr s'"
      "1 < length (utxos s')" for g s'
  proof -
    have "getWalletUTXOs (env\<lparr>getUtxos := g\<rparr>)
            (estimateUploadFee (env\<lparr>getUtxos := g\<rparr>) file) = Inr s'"
      using that(1) by (simp only: estimateUploadFee_getUtxos_update)
    from upload_after_merge [OF this that(2), of ?d]
    show ?thesis
      by (simp only: estimateUploadFee_getUtxos_update mergeUTXOs_getUtxos_update
          buildAndSignBaseTx_getUtxos_update directUpload_getUtxos_update)
  qed
  from h have a1: "getWalletUTXOs (env\<lparr>getUtxos := g1\<rparr>) (estimateUploadFee env file) = Inr s1"
    and b1: "1 < length (utxos s1)"
    and a2: "getWalletUTXOs (env\<lparr>getUtxos := g2\<rparr>) (estimateUploadFee env file) = Inr s2"
    and b2: "1 < length (utxos s2)"
    by simp_all
  from a1 b1 have "uploadFileToChainDirect (env\<lparr>getUtxos := g1\<rparr>) file
     = (case mergeUTXOs env ?d (estimateUploadFee env file) of
          Inl e \<Rightarrow> Inl e
        | Inr m \<Rightarrow>
            (case buildAndSignBaseTx env \<lparr>utxos = utxos m, totalAmount = totalAmount m\<rparr> of
               Inl e \<Rightarrow> Inl e
             | Inr preTxHex \<Rightarrow>
                 directUpload env file preTxHex (totalAmount m)
                   (case mergeTxHex m of None \<Rightarrow> [] | Some h \<Rightarrow> h)))"
    by (rule one)
  moreover from a2 b2 have "uploadFileToChainDirect (env\<lparr>getUtxos := g2\<rparr>) file
     = (case mergeUTXOs env ?d (estimateUploadFee env file) of
          Inl e \<Rightarrow> Inl e
        | Inr m \<Rightarrow>
            (case buildAndSignBaseTx env \<lparr>utxos = utxos m, totalAmount = totalAmount m\<rparr> of
               Inl e \<Rightarrow> Inl e
             | Inr preTxHex \<Rightarrow>
                 directUpload env file preTxHex (totalAmount m)
                   (case mergeTxHex m of None \<Rightarrow> [] | Some h \<Rightarrow> h)))"
    by (rule one)
  ultimately show "uploadFileToChainDirect (env\<lparr>getUtxos := g1\<rparr>) file
        = uploadFileToChainDirect (env\<lparr>getUtxos := g2\<rparr>) file"
    by simp
qed

lemma pipelineEnv_fields:
  "mvcFeeRate pipelineEnv = 1"
  "userAddress pipelineEnv = ''1Own''"
  "pay pipelineEnv = Some (\<lambda>_. Resolved \<lparr>payedTransactions = [''signed'']\<rparr>)"
  "composerDeserialize pipelineEnv s
     = \<lparr>rawHex = s, payedTxId = ''merged'',
        parsedOutputs = [ownOutput 1871, ownOutput 300]\<rparr>"
  "signTransaction pipelineEnv q = Resolved (Some \<lparr>sig = ''3044'', publicKey = ''02ab''\<rparr>)"
  "fetch pipelineEnv form
     = Resolved \<lparr>ok = True, http_status = 200,
                 json = Some \<lparr>code = 0, resp_message = None, data = exampleUpload\<rparr>\<rparr>"
  by (simp_all add: pipelineEnv_def mergeEnv_def exampleEnv_def)

lemma paysOwn_pipelineEnv: "paysOwn pipelineEnv (ownOutput v)"
  by (simp add: paysOwn_def pipelineEnv_def mergeEnv_def exampleEnv_def ownOutput_def)

lemma estimateUploadFee_pipelineEnv: "estimateUploadFee pipelineEnv (exampleFile 1000) = 1871"
proof -
  have "estimateUploadFee pipelineEnv (exampleFile 1000)
      = feeFormula 1 (file_size (exampleFile 1000))"
    by (rule estimateUploadFee_rate_1) (simp_all add: pipelineEnv_fields exampleFile_def)
  then show ?thesis by (simp add: exampleFile_def feeFormula_1_1000)
qed

lemma select_two:
  "getWalletUTXOs
     (pipelineEnv\<lparr>getUtxos :=
        Resolved (Some [walletOutput ''a'' 1000, walletOutput ''b'' 900])\<rparr>) 1871
   = Inr \<lparr>utxos = [toUTXO pipelineEnv (walletOutput ''a'' 1000),
                   toUTXO pipelineEnv (walletOutput ''b'' 900)],
          totalAmount = 1900\<rparr>"
  by (simp add: getWalletUTXOs_def selectFrom_def fillerUtxos_def sortDescending_def
      walletOutput_def toUTXO_getUtxos_update Let_def)

lemma select_three:
  "getWalletUTXOs
     (pipelineEnv\<lparr>getUtxos :=
        Resolved (Some [walletOutput ''c'' 650, walletOutput ''d'' 800,
                        walletOutput ''e'' 700])\<rparr>) 1871
   = Inr \<lparr>utxos = [toUTXO pipelineEnv (walletOutput ''d'' 800),
                   toUTXO pipelineEnv (walletOutput ''e'' 700),
                   toUTXO pipelineEnv (walletOutput ''c'' 650)],
          totalAmount = 2150\<rparr>"
  by (simp add: getWalletUTXOs_def selectFrom_def fillerUtxos_def sortDescending_def
      walletOutput_def toUTXO_getUtxos_update Let_def)

text \<open>
  A file of 1000 bytes at rate 1 needs 1871. A wallet with outputs of 1000 and 900
  selects both; a wallet with outputs of 650, 800 and 700 selects all three. Both
  selections hold more than one output, and both runs end in the same result.
\<close>

theorem mergeUTXOs_ignores_selection_witness:
  "getWalletUTXOs
     (pipelineEnv\<lparr>getUtxos :=
        Resolved (Some [walletOutput ''a'' 1000, walletOutput ''b'' 900])\<rparr>)
     (estimateUploadFee pipelineEnv (exampleFile 1000))
   = Inr \<lparr>utxos = [toUTXO pipelineEnv (walletOutput ''a'' 1000),
                   toUTXO pipelineEnv (walletOutput ''b'' 900)],
          totalAmount = 1900\<rparr>
   \<and> getWalletUTXOs
     (pipelineEnv\<lparr>getUtxos :=
        Resolved (Some [walletOutput ''c'' 650, walletOutput ''d'' 800,
                        walletOutput ''e'' 700])\<rparr>)
     (estimateUploadFee pipelineEnv (exampleFile 1000))
   = Inr \<lparr>utxos = [toUTXO pipelineEnv (walletOutput ''d'' 800),
                   toUTXO pipelineEnv (walletOutput ''e'' 700),
                   toUTXO pipelineEnv (walletOutput ''c'' 650)],
          totalAmount = 2150\<rparr>
   \<and> uploadFileToChainDirect
       (pipelineEnv\<lparr>getUtxos :=
          Resolved (Some [walletOutput ''a'' 1000, walletOutput ''b'' 900])\<rparr>)
       (exampleFile 1000)
     = uploadFileToChainDirect
       (pipelineEnv\<lparr>getUtxos :=
          Resolved (Some [walletOutput ''c'' 650, walletOutput ''d'' 800,
                          walletOutput ''e'' 700])\<rparr>)
       (exampleFile 1000)"
proof -
  let ?g1 = "Resolved (Some [walletOutput ''a'' 1000, walletOutput ''b'' 900])"
  let ?g2 = "Resolved (Some [walletOutput ''c'' 650, walletOutput ''d'' 800,
                        walletOutput ''e'' 700])"
  let ?s1 = "\<lparr>utxos = [toUTXO pipelineEnv (walletOutput ''a'' 1000),
                   toUTXO pipelineEnv (walletOutput ''b'' 900)],
          totalAmount = 1900\<rparr>"
  let ?s2 = "\<lparr>utxos = [toUTXO pipelineEnv (walletOutput ''d'' 800),
                   toUTXO pipelineEnv (walletOutput ''e'' 700),
                   toUTXO pipelineEnv (walletOutput ''c'' 650)],
          totalAmount = 2150\<rparr>"
  let ?f = "exampleFile 1000"
  have a1: "getWalletUTXOs (pipelineEnv\<lparr>getUtxos := ?g1\<rparr>)
      (estimateUploadFee pipelineEnv ?f) = Inr ?s1"
    by (simp only: estimateUploadFee_pipelineEnv select_two)
  have a2: "getWalletUTXOs (pipelineEnv\<lparr>getUtxos := ?g2\<rparr>)
      (estimateUploadFee pipelineEnv ?f) = Inr ?s2"
    by (simp only: estimateUploadFee_pipelineEnv select_three)
  have b1: "1 < length (utxos ?s1)" by simp
  have b2: "1 < length (utxos ?s2)" by simp
  have "uploadFileToChainDirect (pipelineEnv\<lparr>getUtxos := ?g1\<rparr>) ?f
      = uploadFileToChainDirect (pipelineEnv\<lparr>getUtxos := ?g2\<rparr>) ?f"
    using mergeUTXOs_ignores_selection
      [of pipelineEnv _ _ _ ?f _ _ ?g1 ?s1 ?g2 ?s2, THEN conjunct2, THEN conjunct2]
      a1 b1 a2 b2
    by blast
  with a1 a2 show ?thesis by (intro conjI)
qed


section \<open>Upload: the finalizer's response\<close>

lemma directUpload_resolved:
  assumes "fetch env (uploadForm env file pre t m) = Resolved response"
  shows "directUpload env file pre t m
     = (if \<not> ok response then Inl (DirectUploadFailed (HTTPError (http_status response)))
        else case json response of
               None \<Rightarrow> Inl (DirectUploadFailed BadJson)
             | Some result \<Rightarrow>
                 if code result \<noteq> 0
                 then Inl (DirectUploadFailed (ServerMessage
                        (case resp_message result of None \<Rightarrow> [] | Some msg \<Rightarrow> msg)))
                 else Inr (data result))"
proof (cases "json response")
  case None
  with assms show ?thesis by (simp add: directUpload_def)
next
  case (Some result)
  with assms show ?thesis by (simp add: directUpload_def)
qed

lemma uploadEnv_fetch: "fetch (uploadEnv response) form = Resolved response"
  by (simp add: uploadEnv_def)

text \<open>
  Claim C8, as the code has it. For every finalizer response: a non-success HTTP status
  is a terminal upload failure that carries the HTTP status code (the body, and any
  message in it, is not read); a non-zero application-level code in the body of a
  successful HTTP response is a terminal upload failure that carries the server-supplied
  message verbatim (the empty message when the body has none); and only a successful
  HTTP response whose body has code 0 yields a success result, the body's data with the
  final transaction id.
\<close>

theorem directUpload_response:
  assumes "fetch env (uploadForm env file pre t m) = Resolved response"
  shows "(\<not> ok response \<longrightarrow>
            directUpload env file pre t m
              = Inl (DirectUploadFailed (HTTPError (http_status response))))
       \<and> (ok response \<and> json response = Some body \<and> code body \<noteq> 0 \<longrightarrow>
            directUpload env file pre t m
              = Inl (DirectUploadFailed (ServerMessage
                       (case resp_message body of None \<Rightarrow> [] | Some msg \<Rightarrow> msg))))
       \<and> (ok response \<and> json response = Some body \<and> code body = 0 \<longrightarrow>
            directUpload env file pre t m = Inr (data body))
       \<and> (\<forall>u. directUpload env file pre t m = Inr u \<longrightarrow>
            ok response \<and> (\<exists>b. json response = Some b \<and> code b = 0 \<and> u = data b))"
proof -
  note run = directUpload_resolved [OF assms]
  have only: "ok response \<and> (\<exists>b. json response = Some b \<and> code b = 0 \<and> u = data b)"
    if "directUpload env file pre t m = Inr u" for u
  proof (cases "json response")
    case None
    with that run show ?thesis by (simp split: if_splits)
  next
    case (Some b)
    with that run show ?thesis by (simp split: if_splits)
  qed
  show ?thesis
    using only by (simp add: run)
qed

text \<open>
  The scenario of the specification: the finalizer answers with code 1 and the message
  \<open>insufficient fee\<close>, and the failure carries that message. With code 0 the result is
  the body's data.
\<close>

theorem directUpload_response_witness:
  "fetch (uploadEnv \<lparr>ok = True, http_status = 200,
                      json = Some \<lparr>code = 1, resp_message = Some ''insufficient fee'',
                                   data = exampleUpload\<rparr>\<rparr>)
         (uploadForm (uploadEnv \<lparr>ok = True, http_status = 200,
                      json = Some \<lparr>code = 1, resp_message = Some ''insufficient fee'',
                                   data = exampleUpload\<rparr>\<rparr>)
            (exampleFile 1000) ''pre'' 5000 [])
     = Resolved \<lparr>ok = True, http_status = 200,
                 json = Some \<lparr>code = 1, resp_message = Some ''insufficient fee'',
                              data = exampleUpload\<rparr>\<rparr>
   \<and> directUpload (uploadEnv \<lparr>ok = True, http_status = 200,
                      json = Some \<lparr>code = 1, resp_message = Some ''insufficient fee'',
                                   data = exampleUpload\<rparr>\<rparr>)
        (exampleFile 1000) ''pre'' 5000 []
       = Inl (DirectUploadFailed (ServerMessage ''insufficient fee''))
   \<and> directUpload (uploadEnv \<lparr>ok = True, http_status = 200,
                      json = Some \<lparr>code = 0, resp_message = None,
                                   data = exampleUpload\<rparr>\<rparr>)
        (exampleFile 1000) ''pre'' 5000 []
       = Inr exampleUpload"
proof -
  let ?bad = "\<lparr>code = 1, resp_message = Some ''insufficient fee'', data = exampleUpload\<rparr>"
  let ?good = "\<lparr>code = 0, resp_message = None, data = exampleUpload\<rparr>"
  let ?rb = "\<lparr>ok = True, http_status = 200, json = Some ?bad\<rparr>"
  let ?rg = "\<lparr>ok = True, http_status = 200, json = Some ?good\<rparr>"
  have hb: "fetch (uploadEnv ?rb) (uploadForm (uploadEnv ?rb) (exampleFile 1000) ''pre'' 5000 [])
      = Resolved ?rb"
    by (rule uploadEnv_fetch)
  have hg: "fetch (uploadEnv ?rg) (uploadForm (uploadEnv ?rg) (exampleFile 1000) ''pre'' 5000 [])
      = Resolved ?rg"
    by (rule uploadEnv_fetch)
  have pb: "ok ?rb \<and> json ?rb = Some ?bad \<and> code ?bad \<noteq> 0" by simp
  have pg: "ok ?rg \<and> json ?rg = Some ?good \<and> code ?good = 0" by simp
  have b: "directUpload (uploadEnv ?rb) (exampleFile 1000) ''pre'' 5000 []
      = Inl (DirectUploadFailed (ServerMessage
               (case resp_message ?bad of None \<Rightarrow> [] | Some msg \<Rightarrow> msg)))"
    using directUpload_response [OF hb, of ?bad, THEN conjunct2, THEN conjunct1] pb
    by blast
  have g: "directUpload (uploadEnv ?rg) (exampleFile 1000) ''pre'' 5000 []
      = Inr (data ?good)"
    using directUpload_response [OF hg, of ?good, THEN conjunct2, THEN conjunct2, THEN conjunct1]
      pg
    by blast
  from b have b': "directUpload (uploadEnv ?rb) (exampleFile 1000) ''pre'' 5000 []
      = Inl (DirectUploadFailed (ServerMessage ''insufficient fee''))"
    by simp
  from g have g': "directUpload (uploadEnv ?rg) (exampleFile 1000) ''pre'' 5000 []
      = Inr exampleUpload"
    by simp
  from hb b' g' show ?thesis by (intro conjI)
qed

text \<open>
  The claim as stated fails for a non-success HTTP status: the finalizer answers with
  status 500 and a body that carries the message \<open>insufficient fee\<close>; the failure
  carries the status 500 and not the server-supplied message.
\<close>

theorem directUpload_http_counterexample:
  "directUpload
     (uploadEnv \<lparr>ok = False, http_status = 500,
                 json = Some \<lparr>code = 1, resp_message = Some ''insufficient fee'',
                              data = exampleUpload\<rparr>\<rparr>)
     (exampleFile 1000) ''pre'' 5000 []
     = Inl (DirectUploadFailed (HTTPError 500))
   \<and> directUpload
     (uploadEnv \<lparr>ok = False, http_status = 500,
                 json = Some \<lparr>code = 1, resp_message = Some ''insufficient fee'',
                              data = exampleUpload\<rparr>\<rparr>)
     (exampleFile 1000) ''pre'' 5000 []
     \<noteq> Inl (DirectUploadFailed (ServerMessage ''insufficient fee''))"
  by (simp add: directUpload_resolved [OF uploadEnv_fetch])

section \<open>The asset pointer: round trip\<close>

lemma upt_10: "[0 ..< 10] = [0, 1, 2, 3, 4, 5, 6, 7, 8, 9 :: nat]"
  by (simp add: upt_rec)

lemma digit_cases:
  assumes "d < (10::nat)"
  shows "d = 0 \<or> d = 1 \<or> d = 2 \<or> d = 3 \<or> d = 4 \<or> d = 5 \<or> d = 6 \<or> d = 7 \<or> d = 8 \<or> d = 9"
  using assms by arith

lemma digitVal_digitChar:
  assumes "d < 10"
  shows "digitVal (digitChar d) = Some d"
  using digit_cases [OF assms]
  by (elim disjE) (simp_all add: digitVal_def digitChar_def upt_10)

lemma digitChar_not_i:
  assumes "d < 10"
  shows "digitChar d \<noteq> CHR ''i''"
  using digit_cases [OF assms]
  by (elim disjE) (simp_all add: digitChar_def)

lemma parseDigits_snoc:
  "parseDigits acc (cs @ [c])
     = (case parseDigits acc cs of
          None \<Rightarrow> None
        | Some a \<Rightarrow> (case digitVal c of None \<Rightarrow> None | Some d \<Rightarrow> Some (10 * a + d)))"
proof (induction cs arbitrary: acc)
  case Nil
  show ?case by (cases "digitVal c") simp_all
next
  case (Cons x xs)
  show ?case by (cases "digitVal x") (simp_all add: Cons.IH)
qed

lemma showNat_nonempty: "showNat n \<noteq> []"
  by (subst showNat.simps) simp

lemma showNat_no_i: "CHR ''i'' \<notin> set (showNat n)"
proof (induction n rule: showNat.induct)
  case (1 n)
  show ?case
  proof (cases "n < 10")
    case True
    then show ?thesis
      using digitChar_not_i [of n] by (subst showNat.simps) auto
  next
    case False
    have "n mod 10 < 10" by simp
    then have "digitChar (n mod 10) \<noteq> CHR ''i''" by (rule digitChar_not_i)
    with False "1.IH" show ?thesis by (subst showNat.simps) auto
  qed
qed

lemma parseDigits_showNat: "parseDigits 0 (showNat n) = Some n"
proof (induction n rule: showNat.induct)
  case (1 n)
  show ?case
  proof (cases "n < 10")
    case True
    then show ?thesis
      by (subst showNat.simps) (simp add: digitVal_digitChar)
  next
    case False
    have d: "digitVal (digitChar (n mod 10)) = Some (n mod 10)"
      by (rule digitVal_digitChar) simp
    have "parseDigits 0 (showNat (n div 10)) = Some (n div 10)"
      using False by (rule "1.IH")
    then have "parseDigits 0 (showNat (n div 10) @ [digitChar (n mod 10)])
        = Some (10 * (n div 10) + n mod 10)"
      by (simp add: parseDigits_snoc d)
    with False show ?thesis by (subst showNat.simps) simp
  qed
qed

lemma parseNat_showNat: "parseNat (showNat n) = Some n"
  by (simp add: parseNat_def showNat_nonempty parseDigits_showNat)

lemma splitLast_append:
  assumes "c \<notin> set ds"
  shows "splitLast c (t @ c # ds) = Some (t, ds)"
proof -
  have r: "rev (t @ c # ds) = rev ds @ c # rev t" by simp
  have all: "x \<noteq> c" if "x \<in> set (rev ds)" for x using assms that by auto
  have "dropWhile (\<lambda>x. x \<noteq> c) (rev ds @ c # rev t)
      = dropWhile (\<lambda>x. x \<noteq> c) (c # rev t)"
    by (rule dropWhile_append2) (rule all)
  then have "dropWhile (\<lambda>x. x \<noteq> c) (rev ds @ c # rev t) = c # rev t"
    by simp
  moreover have "takeWhile (\<lambda>x. x \<noteq> c) (rev ds @ c # rev t)
      = rev ds @ takeWhile (\<lambda>x. x \<noteq> c) (c # rev t)"
    by (rule takeWhile_append2) (rule all)
  then have "takeWhile (\<lambda>x. x \<noteq> c) (rev ds @ c # rev t) = rev ds"
    by simp
  ultimately show ?thesis by (simp add: splitLast_def r del: rev_append rev.simps)
qed

lemma decodeAssetPointer_assetPointer:
  "decodeAssetPointer scheme (assetPointer scheme t n) = Some (t, n)"
proof -
  have p: "assetPointer scheme t n = (scheme @ ''://'') @ (t @ CHR ''i'' # showNat n)"
    by (simp add: assetPointer_def)
  have "prefix (scheme @ ''://'') (assetPointer scheme t n)"
    unfolding p by (rule prefixI) simp
  moreover have "drop (length scheme + 3) (assetPointer scheme t n) = t @ CHR ''i'' # showNat n"
    unfolding p by simp
  moreover have "splitLast (CHR ''i'') (t @ CHR ''i'' # showNat n) = Some (t, showNat n)"
    using showNat_no_i by (rule splitLast_append)
  ultimately show ?thesis
    by (simp add: decodeAssetPointer_def parseNat_showNat)
qed

lemma showNat_0: "showNat 0 = ''0''"
  by (subst showNat.simps) (simp add: digitChar_def)

text \<open>
  Claim C9. For every scheme, transaction id and output index, the asset pointer built
  in the format \<open>{scheme}://{finalTransactionId}i{outputIndex}\<close> decodes back to the
  same pair of transaction id and index, where decoding strips the scheme and splits at
  the last \<open>i\<close>. The pointer that \<open>uploadFile\<close> produces is \<open>metafile://{txId}i0\<close>,
  the pointer of that format with scheme \<open>metafile\<close> and index 0, and it decodes to
  the transaction id and index 0. Because the split is at the last \<open>i\<close> and a decimal
  index holds no \<open>i\<close>, this holds for every transaction id, hexadecimal or not.
\<close>

theorem assetPointer_roundtrip:
  "decodeAssetPointer scheme (assetPointer scheme t n) = Some (t, n)
   \<and> uploadFilePointer result = assetPointer ''metafile'' (up_txId result) 0
   \<and> decodeAssetPointer ''metafile'' (uploadFilePointer result) = Some (up_txId result, 0)"
proof -
  have built: "uploadFilePointer result = assetPointer ''metafile'' (up_txId result) 0"
    by (simp add: uploadFilePointer_def assetPointer_def showNat_0)
  show ?thesis
    unfolding built by (simp only: decodeAssetPointer_assetPointer simp_thms)
qed


end
